theory Spec2Isabelle
  imports Complex_Main
begin

section \<open>Data model\<close>

text \<open>
  The TypeScript sources use \<^verbatim>\<open>number\<close> for every quantity: an IEEE 754 double. A
  number is modelled as the real it denotes, and an arithmetic operation of the zone
  builder as the exact operation followed by the rounding \<open>fl\<close> of the next section. No
  input is a NaN or an infinity; where the code can produce a NaN or an infinity from
  finite inputs (a division by zero) the model says so explicitly. Loop counters and
  zone ids are integers, counts are naturals. The sums and quotients of the centroids
  and the distance of the record linker are kept in exact arithmetic. A JavaScript
  string is its list of UTF-16 code units.
\<close>

type_synonym jsstring = "nat list"

definition ascii :: "string \<Rightarrow> jsstring" where
  "ascii s = map of_char s"

section \<open>Double arithmetic\<close>

text \<open>
  \<open>fl x\<close> is the double nearest to the real \<open>x\<close>, a tie going to the even significand:
  \<open>x\<close> is scaled by the power of two that brings its magnitude into \<open>[2^52, 2^53)\<close>,
  rounded to an integer and scaled back. The exponent range is not modelled (no
  overflow to infinity, no subnormal numbers): magnitudes are taken to stay between
  \<open>2^-1022\<close> and \<open>2^1024\<close>, as the kilometre radii and widths of the map component do.
\<close>

definition roundEven :: "real \<Rightarrow> int" where
  "roundEven y =
     (let f = \<lfloor>y\<rfloor>
      in if y - of_int f < 1 / 2 then f
         else if 1 / 2 < y - of_int f then f + 1
         else if even f then f else f + 1)"

definition ulpExp :: "real \<Rightarrow> int" where
  "ulpExp x = \<lfloor>log 2 \<bar>x\<bar>\<rfloor> - 52"

definition fl :: "real \<Rightarrow> real" where
  "fl x = (if x = 0 then 0 else of_int (roundEven (x / 2 powi ulpExp x)) * 2 powi ulpExp x)"

section \<open>Records of the sources\<close>

subsection \<open>school.model.ts\<close>

record ContactInfo =
  phone :: jsstring
  email :: jsstring
  website :: "jsstring option"

record PolygonCoordinates =
  coordinates :: "(real \<times> real) list"

datatype Source = Idecor | Osm | Hybrid

record SchoolData =
  nivel :: "jsstring option"
  sector :: "jsstring option"
  ambito :: "jsstring option"
  alumnos :: "real option"
  estado :: "jsstring option"
  cue :: "jsstring option"
  source :: "Source option"

record School =
  id' :: jsstring
  name :: jsstring
  address :: jsstring
  contactInfo :: ContactInfo
  polygon :: PolygonCoordinates
  detected :: bool
  color :: "jsstring option"
  additionalData :: "SchoolData option"

subsection \<open>layer.model.ts\<close>

datatype LayerType =
  Schools | Hospitals | Police | Fire_stations | Risk_zones | Burned_areas
  | Geology | Natural_areas | Natural_regions | Soil_map

text \<open>The \<^verbatim>\<open>properties\<close> of a layer feature are opaque (\<^verbatim>\<open>Record<string, unknown>\<close>):
  a type parameter.\<close>

record 'p LayerFeature =
  id' :: jsstring
  name :: jsstring
  layerType :: LayerType
  coordinates :: "real \<times> real"
  polygon :: "(real \<times> real) list option"
  properties :: 'p

subsection \<open>buffer-zone.model.ts\<close>

datatype RiskLevel = High | Medium | Low

text \<open>
  The type parameter \<open>'g\<close> is the geometry library's polygon feature
  (\<^verbatim>\<open>GeoJSON.Feature<Polygon | MultiPolygon>\<close>). The interface marks \<^verbatim>\<open>polygon\<close> optional;
  \<^verbatim>\<open>createBufferZones\<close>, the only producer of zones, always sets it and
  \<^verbatim>\<open>calculateStatistics\<close> reads it with a non-null assertion, so the field is plain here.
\<close>

record 'g BufferZone =
  id' :: int
  radiusKm :: real
  riskLevel :: RiskLevel
  color :: jsstring
  fillOpacity :: real
  polygon :: 'g

record BufferZoneStats =
  zoneId :: int
  radiusKm :: real
  riskLevel :: RiskLevel
  schools :: nat
  hospitals :: nat
  police :: nat
  fireStations :: nat
  riskZones :: nat
  total :: nat

record TotalElements =
  schools :: nat
  hospitals :: nat
  police :: nat
  fireStations :: nat
  riskZones :: nat

record 'g BufferAnalysisResult =
  centerPoint :: "real \<times> real"
  zones :: "'g BufferZone list"
  statistics :: "BufferZoneStats list"
  totalElements :: TotalElements

section \<open>The geometry library\<close>

text \<open>
  \<^verbatim>\<open>@turf/turf\<close> is a third-party library: its three operations the service calls are
  parameters of the model. A position is the pair \<^verbatim>\<open>[lng, lat]\<close> that \<^verbatim>\<open>turf.point\<close>
  wraps. \<^verbatim>\<open>turf.difference\<close> can throw, return \<^verbatim>\<open>null\<close> (an empty difference) or
  return a feature; \<^verbatim>\<open>createRingPolygon\<close> handles all three. \<^verbatim>\<open>turf.buffer\<close> is taken to
  return a feature, as the service's cast assumes; it does so for the positive radii
  that a configuration with a positive total radius and zone width produces.
\<close>

datatype 'g Difference = Threw | Null | Feature 'g

record 'g Turf =
  buffer :: "real \<times> real \<Rightarrow> real \<Rightarrow> 'g"
  difference :: "'g \<Rightarrow> 'g \<Rightarrow> 'g Difference"
  booleanPointInPolygon :: "real \<times> real \<Rightarrow> 'g \<Rightarrow> bool"

section \<open>buffer-analysis service\<close>

record BufferConfig =
  totalRadius :: real
  zoneWidth :: real

record BufferAnalysisService =
  defaultConfig :: BufferConfig

text \<open>The service as the class initialises it: \<^verbatim>\<open>{ totalRadius: 5, zoneWidth: 1 }\<close>.\<close>

definition service :: BufferAnalysisService where
  "service = \<lparr>defaultConfig = \<lparr>totalRadius = 5, zoneWidth = 1\<rparr>\<rparr>"

text \<open>
  \<^verbatim>\<open>calculateRiskLevel\<close> compares the ratio with the thresholds in exact arithmetic. The
  program compares the rounded ratio with the doubles nearest to 0.6 and 0.8; for fewer
  than \<open>2^32\<close> zones, the most an array holds, the outcome is the same (lemma
  \<open>ratio_thresholds\<close> below).
\<close>

definition calculateRiskLevel :: "int \<Rightarrow> int \<Rightarrow> RiskLevel" where
  "calculateRiskLevel zoneIndex totalZones =
     (let ratio = real_of_int zoneIndex / real_of_int totalZones
      in if ratio \<le> 0.6 then High else if ratio \<le> 0.8 then Medium else Low)"

definition getRiskColor :: "RiskLevel \<Rightarrow> jsstring" where
  "getRiskColor level =
     (case level of
        High \<Rightarrow> ascii ''#e74c3c''
      | Medium \<Rightarrow> ascii ''#f39c12''
      | Low \<Rightarrow> ascii ''#27ae60'')"

text \<open>\<^verbatim>\<open>0.35 - (zoneIndex / totalZones) * 0.2\<close>: the literals are the doubles nearest to the
  decimals, and each of the three operations rounds.\<close>

definition getFillOpacity :: "int \<Rightarrow> int \<Rightarrow> real" where
  "getFillOpacity zoneIndex totalZones =
     fl (fl (35 / 100) - fl (fl (real_of_int zoneIndex / real_of_int totalZones) * fl (2 / 10)))"

text \<open>The body of the \<^verbatim>\<open>for\<close> loop of \<^verbatim>\<open>createBufferZones\<close>: the zone pushed at index \<open>i\<close>.
  The counter \<open>i\<close> is an integer below \<open>2^53\<close> and so exact; the product \<^verbatim>\<open>i * zoneWidth\<close> is
  rounded.\<close>

definition makeZone ::
  "'g Turf \<Rightarrow> real \<times> real \<Rightarrow> real \<Rightarrow> real \<Rightarrow> int \<Rightarrow> int \<Rightarrow> 'g BufferZone" where
  "makeZone turf center totalKm widthKm numZones i =
     (let radius = min (fl (real_of_int i * widthKm)) totalKm;
          level = calculateRiskLevel i numZones;
          colour = getRiskColor level;
          opacity = getFillOpacity i numZones;
          point = (snd center, fst center);
          buffered = buffer turf point radius
      in \<lparr>BufferZone.id' = i, radiusKm = radius, riskLevel = level, color = colour,
          fillOpacity = opacity, polygon = buffered\<rparr>)"

text \<open>\<^verbatim>\<open>for (let i = 1; i <= numZones; i++) zones.push(...)\<close>, from the current \<open>i\<close>.\<close>

function zonesLoop ::
  "'g Turf \<Rightarrow> real \<times> real \<Rightarrow> real \<Rightarrow> real \<Rightarrow> int \<Rightarrow> int \<Rightarrow> 'g BufferZone list" where
  "zonesLoop turf center totalKm widthKm numZones i =
     (if i \<le> numZones
      then makeZone turf center totalKm widthKm numZones i
             # zonesLoop turf center totalKm widthKm numZones (i + 1)
      else [])"
  by pat_completeness auto
termination
  by (relation "measure (\<lambda>(turf, center, totalKm, widthKm, numZones, i). nat (numZones + 1 - i))") auto

declare zonesLoop.simps [simp del]

text \<open>\<^verbatim>\<open>config || this.defaultConfig\<close>.\<close>

definition configOrDefault :: "BufferAnalysisService \<Rightarrow> BufferConfig option \<Rightarrow> BufferConfig" where
  "configOrDefault this config = (case config of Some c \<Rightarrow> c | None \<Rightarrow> defaultConfig this)"

text \<open>
  \<^verbatim>\<open>Math.ceil(totalRadius / zoneWidth)\<close>: the quotient is rounded to a double before the
  ceiling is taken. It is \<^verbatim>\<open>Infinity\<close> when the zone width is zero and the total radius
  positive: the loop then never ends and the call does not return, which is the value
  \<open>None\<close>. With a zero width and a total radius that is zero or negative the quotient is
  \<^verbatim>\<open>NaN\<close> or \<^verbatim>\<open>-Infinity\<close>, the loop condition is false at once and the result is empty.
\<close>

definition createBufferZones ::
  "'g Turf \<Rightarrow> BufferAnalysisService \<Rightarrow> real \<times> real \<Rightarrow> BufferConfig option
     \<Rightarrow> 'g BufferZone list option" where
  "createBufferZones turf this center config =
     (let cfg = configOrDefault this config;
          totalKm = totalRadius cfg;
          widthKm = zoneWidth cfg
      in if widthKm = 0
         then (if 0 < totalKm then None else Some [])
         else (let numZones = \<lceil>fl (totalKm / widthKm)\<rceil>
               in Some (zonesLoop turf center totalKm widthKm numZones 1)))"

text \<open>
  \<^verbatim>\<open>getSchoolCenter\<close>: the arithmetic mean of the vertices, and \<^verbatim>\<open>[0, 0]\<close> for a polygon
  with no vertex. (\<^verbatim>\<open>school.polygon\<close> is a required field, so the first conjunct of the
  source's guard is always true.)
\<close>

definition getSchoolCenter :: "School \<Rightarrow> real \<times> real" where
  "getSchoolCenter school =
     (if length (PolygonCoordinates.coordinates (School.polygon school)) > 0
      then (let coords = PolygonCoordinates.coordinates (School.polygon school);
                sumLat = foldl (\<lambda>sum c. sum + fst c) 0 coords;
                sumLng = foldl (\<lambda>sum c. sum + snd c) 0 coords
            in (sumLat / real (length coords), sumLng / real (length coords)))
      else (0, 0))"

definition countPointsInPolygon :: "'g Turf \<Rightarrow> (real \<times> real) list \<Rightarrow> 'g \<Rightarrow> nat" where
  "countPointsInPolygon turf points poly =
     length (filter (\<lambda>point. booleanPointInPolygon turf (snd point, fst point) poly) points)"

definition countFeaturesInPolygon :: "'g Turf \<Rightarrow> 'p LayerFeature list \<Rightarrow> 'g \<Rightarrow> nat" where
  "countFeaturesInPolygon turf features poly =
     length (filter (\<lambda>feature. booleanPointInPolygon turf
        (snd (LayerFeature.coordinates feature), fst (LayerFeature.coordinates feature)) poly) features)"

text \<open>
  \<^verbatim>\<open>createRingPolygon\<close>: the \<^verbatim>\<open>try\<close>/\<^verbatim>\<open>catch\<close> and the \<^verbatim>\<open>|| outerPolygon\<close> are the two
  fallback branches.
\<close>

definition createRingPolygon :: "'g Turf \<Rightarrow> 'g \<Rightarrow> 'g list \<Rightarrow> 'g" where
  "createRingPolygon turf outerPolygon innerPolygons =
     (if length innerPolygons = 0 then outerPolygon
      else (let innerPolygon = innerPolygons ! (length innerPolygons - 1)
            in case difference turf outerPolygon innerPolygon of
                 Threw \<Rightarrow> outerPolygon
               | Null \<Rightarrow> outerPolygon
               | Feature d \<Rightarrow> d))"

text \<open>\<^verbatim>\<open>layerFeatures.get(key) || []\<close> on the \<^verbatim>\<open>Map\<close> of layer features.\<close>

definition getOrEmpty :: "(LayerType \<rightharpoonup> 'p LayerFeature list) \<Rightarrow> LayerType \<Rightarrow> 'p LayerFeature list" where
  "getOrEmpty layerFeatures key = (case layerFeatures key of Some fs \<Rightarrow> fs | None \<Rightarrow> [])"

text \<open>The body of the callback of \<^verbatim>\<open>zones.map\<close> once the ring polygon is known.\<close>

definition zoneStatistics ::
  "'g Turf \<Rightarrow> 'g BufferZone \<Rightarrow> 'g \<Rightarrow> School list \<Rightarrow> (LayerType \<rightharpoonup> 'p LayerFeature list)
     \<Rightarrow> BufferZoneStats" where
  "zoneStatistics turf zone ringPolygon schoolList layerFeatures =
     (let schoolsInZone = countPointsInPolygon turf (map getSchoolCenter schoolList) ringPolygon;
          hospitalsInZone = countFeaturesInPolygon turf (getOrEmpty layerFeatures Hospitals) ringPolygon;
          policeInZone = countFeaturesInPolygon turf (getOrEmpty layerFeatures Police) ringPolygon;
          fireStationsInZone = countFeaturesInPolygon turf (getOrEmpty layerFeatures Fire_stations) ringPolygon;
          riskZonesInZone = countFeaturesInPolygon turf (getOrEmpty layerFeatures Risk_zones) ringPolygon
      in \<lparr>zoneId = BufferZone.id' zone,
          radiusKm = BufferZone.radiusKm zone,
          riskLevel = BufferZone.riskLevel zone,
          schools = schoolsInZone,
          hospitals = hospitalsInZone,
          police = policeInZone,
          fireStations = fireStationsInZone,
          riskZones = riskZonesInZone,
          total = schoolsInZone + hospitalsInZone + policeInZone + fireStationsInZone + riskZonesInZone\<rparr>)"

text \<open>
  \<^verbatim>\<open>zones.map\<close> with the mutable array \<^verbatim>\<open>prevZonePolygons\<close> that the callback reads and
  then pushes to: the array is threaded through the recursion.
\<close>

fun calculateStatisticsLoop ::
  "'g Turf \<Rightarrow> 'g list \<Rightarrow> 'g BufferZone list \<Rightarrow> School list \<Rightarrow> (LayerType \<rightharpoonup> 'p LayerFeature list)
     \<Rightarrow> BufferZoneStats list" where
  "calculateStatisticsLoop turf prevZonePolygons [] schoolList layerFeatures = []"
| "calculateStatisticsLoop turf prevZonePolygons (zone # rest) schoolList layerFeatures =
     (let ringPolygon = createRingPolygon turf (BufferZone.polygon zone) prevZonePolygons
      in zoneStatistics turf zone ringPolygon schoolList layerFeatures
           # calculateStatisticsLoop turf (prevZonePolygons @ [BufferZone.polygon zone]) rest
               schoolList layerFeatures)"

definition calculateStatistics ::
  "'g Turf \<Rightarrow> 'g BufferZone list \<Rightarrow> School list \<Rightarrow> (LayerType \<rightharpoonup> 'p LayerFeature list)
     \<Rightarrow> BufferZoneStats list" where
  "calculateStatistics turf zoneList schoolList layerFeatures =
     calculateStatisticsLoop turf [] zoneList schoolList layerFeatures"

text \<open>\<^verbatim>\<open>layerFeatures.get(key)?.length || 0\<close>.\<close>

definition lengthOrZero :: "(LayerType \<rightharpoonup> 'p LayerFeature list) \<Rightarrow> LayerType \<Rightarrow> nat" where
  "lengthOrZero layerFeatures key = (case layerFeatures key of Some fs \<Rightarrow> length fs | None \<Rightarrow> 0)"

definition analyzeBufferZones ::
  "'g Turf \<Rightarrow> BufferAnalysisService \<Rightarrow> real \<times> real \<Rightarrow> School list
     \<Rightarrow> (LayerType \<rightharpoonup> 'p LayerFeature list) \<Rightarrow> BufferConfig option
     \<Rightarrow> 'g BufferAnalysisResult option" where
  "analyzeBufferZones turf this center schoolList layerFeatures config =
     (case createBufferZones turf this center config of
        None \<Rightarrow> None
      | Some zoneList \<Rightarrow>
          Some \<lparr>centerPoint = center,
                zones = zoneList,
                statistics = calculateStatistics turf zoneList schoolList layerFeatures,
                totalElements =
                  \<lparr>schools = length schoolList,
                   hospitals = lengthOrZero layerFeatures Hospitals,
                   police = lengthOrZero layerFeatures Police,
                   fireStations = lengthOrZero layerFeatures Fire_stations,
                   riskZones = lengthOrZero layerFeatures Risk_zones\<rparr>\<rparr>)"

section \<open>hybrid-school service\<close>

text \<open>
  \<^verbatim>\<open>String.prototype.toLowerCase\<close> and \<^verbatim>\<open>normalize('NFD')\<close> are built-ins of the runtime,
  driven by the Unicode tables: parameters of the model. The two \<^verbatim>\<open>replace\<close> calls use
  regular expressions without the \<^verbatim>\<open>u\<close> flag, so they filter code units.
\<close>

record JsRuntime =
  toLowerCase :: "jsstring \<Rightarrow> jsstring"
  normalizeNFD :: "jsstring \<Rightarrow> jsstring"

definition normalizeSchoolName :: "JsRuntime \<Rightarrow> jsstring \<Rightarrow> jsstring" where
  "normalizeSchoolName rt nm =
     filter (\<lambda>u. (97 \<le> u \<and> u \<le> 122) \<or> (48 \<le> u \<and> u \<le> 57))
       (filter (\<lambda>u. \<not> (768 \<le> u \<and> u \<le> 879))
          (normalizeNFD rt (toLowerCase rt nm)))"

text \<open>
  \<^verbatim>\<open>getCenter\<close> divides by \<^verbatim>\<open>coords.length\<close> with no guard: for an empty array the result
  is \<^verbatim>\<open>[NaN, NaN]\<close>, which is \<open>None\<close> here. A distance computed from a NaN is NaN, and
  \<^verbatim>\<open>NaN < maxDistance\<close> is false.
\<close>

definition getCenter :: "(real \<times> real) list \<Rightarrow> (real \<times> real) option" where
  "getCenter coords =
     (let sum = foldl (\<lambda>acc coord. (fst acc + fst coord, snd acc + snd coord)) (0, 0) coords
      in if length coords = 0 then None
         else Some (fst sum / real (length coords), snd sum / real (length coords)))"

definition calculateDistance :: "(real \<times> real) option \<Rightarrow> (real \<times> real) option \<Rightarrow> real option" where
  "calculateDistance coord1 coord2 =
     (case (coord1, coord2) of
        (Some c1, Some c2) \<Rightarrow>
          (let dx = fst c1 - fst c2; dy = snd c1 - snd c2 in Some (sqrt (dx * dx + dy * dy)))
      | _ \<Rightarrow> None)"

definition maxDistance :: real where
  "maxDistance = 0.002"

text \<open>The \<^verbatim>\<open>for ... of\<close> loop of \<^verbatim>\<open>findNearestOSM\<close>, which returns at the first hit.\<close>

fun findNearestOSMLoop :: "(real \<times> real) option \<Rightarrow> School list \<Rightarrow> School option" where
  "findNearestOSMLoop oficialCenter [] = None"
| "findNearestOSMLoop oficialCenter (osm # rest) =
     (let osmCenter = getCenter (PolygonCoordinates.coordinates (School.polygon osm));
          distance = calculateDistance oficialCenter osmCenter
      in if (case distance of Some d \<Rightarrow> d < maxDistance | None \<Rightarrow> False)
         then Some osm
         else findNearestOSMLoop oficialCenter rest)"

definition findNearestOSM :: "School \<Rightarrow> School list \<Rightarrow> School option" where
  "findNearestOSM oficial osmSchools =
     (let oficialCenter = getCenter (PolygonCoordinates.coordinates (School.polygon oficial))
      in findNearestOSMLoop oficialCenter osmSchools)"

text \<open>\<^verbatim>\<open>{ ...oficial.additionalData, source: 'hybrid' }\<close>: spreading \<^verbatim>\<open>undefined\<close> adds no
  field.\<close>

definition spreadWithHybrid :: "SchoolData option \<Rightarrow> SchoolData" where
  "spreadWithHybrid ad =
     (case ad of
        Some d \<Rightarrow> d\<lparr>source := Some Hybrid\<rparr>
      | None \<Rightarrow> \<lparr>nivel = None, sector = None, ambito = None, alumnos = None, estado = None,
                 cue = None, source = Some Hybrid\<rparr>)"

text \<open>The callback of \<^verbatim>\<open>oficiales.map\<close> in \<^verbatim>\<open>mergeSchools\<close>.\<close>

definition enrich :: "School list \<Rightarrow> School \<Rightarrow> School" where
  "enrich osmSchools oficial =
     (case findNearestOSM oficial osmSchools of
        Some osmMatch \<Rightarrow>
          if length (PolygonCoordinates.coordinates (School.polygon osmMatch)) > 5
          then oficial\<lparr>School.polygon := School.polygon osmMatch,
                       additionalData := Some (spreadWithHybrid (additionalData oficial))\<rparr>
          else oficial
      | None \<Rightarrow> oficial)"

definition mergeSchools :: "JsRuntime \<Rightarrow> School list \<Rightarrow> School list \<Rightarrow> School list" where
  "mergeSchools rt oficiales osmSchools =
     (let merged = map (enrich osmSchools) oficiales;
          oficialNames = set (map (\<lambda>school. normalizeSchoolName rt (School.name school)) oficiales);
          additionalOSM =
            filter (\<lambda>osm. normalizeSchoolName rt (School.name osm) \<notin> oficialNames) osmSchools
      in merged @ additionalOSM)"

section \<open>Specification-side notions\<close>

text \<open>
  The ring of zone \<open>i\<close> (0-based position in the zone list) in the specification's words:
  the first zone's full buffer; for a later zone the difference of its buffer and the
  immediately preceding zone's buffer, and the zone's own buffer when the difference
  throws or is empty.
\<close>

definition ringOfZone :: "'g Turf \<Rightarrow> 'g BufferZone list \<Rightarrow> nat \<Rightarrow> 'g" where
  "ringOfZone turf zoneList i =
     (if i = 0 then BufferZone.polygon (zoneList ! 0)
      else (case difference turf (BufferZone.polygon (zoneList ! i))
                                 (BufferZone.polygon (zoneList ! (i - 1))) of
              Feature d \<Rightarrow> d
            | Null \<Rightarrow> BufferZone.polygon (zoneList ! i)
            | Threw \<Rightarrow> BufferZone.polygon (zoneList ! i)))"


text \<open>The position handed to the library for a \<^verbatim>\<open>[lat, lng]\<close> pair.\<close>

definition position :: "real \<times> real \<Rightarrow> real \<times> real" where
  "position latlng = (snd latlng, fst latlng)"








text \<open>
  The radii \<^verbatim>\<open>createBufferZones\<close> gives its zones for a configuration with a non-zero zone
  width, in zone order (lemma \<open>radii_zoneRadii\<close> below).
\<close>

definition zoneRadii :: "BufferConfig \<Rightarrow> real list" where
  "zoneRadii cfg =
     map (\<lambda>i. min (fl (real_of_int i * zoneWidth cfg)) (totalRadius cfg))
       [1..\<lceil>fl (totalRadius cfg / zoneWidth cfg)\<rceil>]"

text \<open>
  The normalised name in the specification's words: lower-cased, diacritics stripped
  (the string is decomposed and the combining marks U+0300 to U+036F are dropped), and
  everything that is not a letter \<^verbatim>\<open>a\<close>-\<^verbatim>\<open>z\<close> or a digit removed.
\<close>

definition lowercased :: "JsRuntime \<Rightarrow> jsstring \<Rightarrow> jsstring" where
  "lowercased rt s = toLowerCase rt s"

definition diacriticsStripped :: "JsRuntime \<Rightarrow> jsstring \<Rightarrow> jsstring" where
  "diacriticsStripped rt s = filter (\<lambda>u. u < 768 \<or> 879 < u) (normalizeNFD rt s)"

definition nonAlphanumericsRemoved :: "jsstring \<Rightarrow> jsstring" where
  "nonAlphanumericsRemoved s = filter (\<lambda>u. u \<in> {97..122} \<union> {48..57}) s"

definition normalizedName :: "JsRuntime \<Rightarrow> jsstring \<Rightarrow> jsstring" where
  "normalizedName rt nm = nonAlphanumericsRemoved (diacriticsStripped rt (lowercased rt nm))"

text \<open>\<^verbatim>\<open>school.additionalData?.field\<close>: a field of the optional \<^verbatim>\<open>additionalData\<close>.\<close>

definition adField :: "(SchoolData \<Rightarrow> 'a option) \<Rightarrow> School \<Rightarrow> 'a option" where
  "adField f school = (case additionalData school of Some d \<Rightarrow> f d | None \<Rightarrow> None)"

section \<open>Concrete instances\<close>

text \<open>
  A planar stand-in for the geometry library, on a flat map with 111 kilometres to the
  degree: a buffer is a disc, a difference is kept symbolically, and is \<^verbatim>\<open>null\<close> for
  concentric discs when nothing of the outer one is left.
\<close>

datatype Geom = Disc "real \<times> real" real | Minus Geom Geom

fun inside :: "real \<times> real \<Rightarrow> Geom \<Rightarrow> bool" where
  "inside p (Disc c r) =
     (0 \<le> r \<and> (111 * (fst p - fst c))\<^sup>2 + (111 * (snd p - snd c))\<^sup>2 \<le> r\<^sup>2)"
| "inside p (Minus a b) = (inside p a \<and> \<not> inside p b)"

fun planarDifference :: "Geom \<Rightarrow> Geom \<Rightarrow> Geom Difference" where
  "planarDifference (Disc c r) (Disc c' r') =
     (if c = c' \<and> r \<le> r' then Null else Feature (Minus (Disc c r) (Disc c' r')))"
| "planarDifference a b = Feature (Minus a b)"

definition planarTurf :: "Geom Turf" where
  "planarTurf = \<lparr>buffer = Disc, difference = planarDifference, booleanPointInPolygon = inside\<rparr>"

text \<open>The same library when every call of \<^verbatim>\<open>turf.difference\<close> throws.\<close>

definition failingTurf :: "Geom Turf" where
  "failingTurf = \<lparr>buffer = Disc, difference = (\<lambda>a b. Threw), booleanPointInPolygon = inside\<rparr>"

text \<open>The string built-ins restricted to ASCII, where they are exact: \<^verbatim>\<open>toLowerCase\<close>
  shifts \<^verbatim>\<open>A\<close>-\<^verbatim>\<open>Z\<close>, and NFD normalisation changes nothing.\<close>

definition asciiRuntime :: JsRuntime where
  "asciiRuntime =
     \<lparr>toLowerCase = map (\<lambda>u. if 65 \<le> u \<and> u \<le> 90 then u + 32 else u),
      normalizeNFD = (\<lambda>s. s)\<rparr>"

definition mkSchool :: "string \<Rightarrow> string \<Rightarrow> (real \<times> real) list \<Rightarrow> School" where
  "mkSchool ident nm coords =
     \<lparr>School.id' = ascii ident, name = ascii nm, address = [],
      contactInfo = \<lparr>phone = [], email = [], website = None\<rparr>,
      polygon = \<lparr>PolygonCoordinates.coordinates = coords\<rparr>, detected = False, color = None,
      additionalData = None\<rparr>"

text \<open>A primary record with the closed square the official source draws around a point
  (centroid \<open>(-31.3992, -64.1992)\<close>), and a traced six-vertex outline whose centroid
  \<open>(-31.3982, -64.1992)\<close> is 0.001 degrees away.\<close>

definition squareCoords :: "(real \<times> real) list" where
  "squareCoords =
     [(-31.4, -64.2), (-31.4, -64.198), (-31.398, -64.198), (-31.398, -64.2), (-31.4, -64.2)]"

definition outlineCoords :: "(real \<times> real) list" where
  "outlineCoords =
     [(-31.3987, -64.1997), (-31.3987, -64.1987), (-31.3977, -64.1987),
      (-31.3977, -64.199), (-31.3977, -64.1994), (-31.3987, -64.1997)]"

text \<open>The same outline one degree of latitude further north.\<close>

definition farCoords :: "(real \<times> real) list" where
  "farCoords = map (\<lambda>c. (fst c + 1, snd c)) outlineCoords"

text \<open>The doubles nearest to the decimals 0.6, 1.8 and 4.2.\<close>

definition d0_6 :: real where
  "d0_6 = 5404319552844595 / 2 ^ 53"

definition d1_8 :: real where
  "d1_8 = 8106479329266893 / 2 ^ 52"

definition d4_2 :: real where
  "d4_2 = 4728779608739021 / 2 ^ 50"


text \<open>
  The string built-ins on Latin-1 code units, where they are as follows:
  \<^verbatim>\<open>toLowerCase\<close> shifts \<^verbatim>\<open>A\<close>-\<^verbatim>\<open>Z\<close> and the accented capitals U+00C0 to U+00DE (but not the
  multiplication sign U+00D7) by 32; the decomposition replaces an accented letter by
  its base letter and one combining mark.
\<close>

definition latinLower :: "nat \<Rightarrow> nat" where
  "latinLower u =
     (if (65 \<le> u \<and> u \<le> 90) \<or> (192 \<le> u \<and> u \<le> 222 \<and> u \<noteq> 215) then u + 32 else u)"

definition lowerDecomposition :: "(nat \<times> nat list) list" where
  "lowerDecomposition =
     [(224, [97, 768]), (225, [97, 769]), (226, [97, 770]), (227, [97, 771]),
      (228, [97, 776]), (229, [97, 778]), (231, [99, 807]),
      (232, [101, 768]), (233, [101, 769]), (234, [101, 770]), (235, [101, 776]),
      (236, [105, 768]), (237, [105, 769]), (238, [105, 770]), (239, [105, 776]),
      (241, [110, 771]),
      (242, [111, 768]), (243, [111, 769]), (244, [111, 770]), (245, [111, 771]),
      (246, [111, 776]),
      (249, [117, 768]), (250, [117, 769]), (251, [117, 770]), (252, [117, 776]),
      (253, [121, 769]), (255, [121, 776])]"

definition latinDecompose :: "nat \<Rightarrow> nat list" where
  "latinDecompose u =
     (case map_of lowerDecomposition u of
        Some d \<Rightarrow> d
      | None \<Rightarrow>
          (case map_of lowerDecomposition (u + 32) of
             Some d \<Rightarrow> if 192 \<le> u \<and> u \<le> 221 then (hd d - 32) # tl d else [u]
           | None \<Rightarrow> [u]))"

definition latinRuntime :: JsRuntime where
  "latinRuntime =
     \<lparr>toLowerCase = map latinLower, normalizeNFD = (\<lambda>s. concat (map latinDecompose s))\<rparr>"

text \<open>The name \<^verbatim>\<open>Escuela Jos\<close> followed by U+00E9, the letter e with an acute accent.\<close>

definition nameJose :: jsstring where
  "nameJose = ascii ''Escuela Jos'' @ [233]"

definition mkNamed :: "jsstring \<Rightarrow> (real \<times> real) list \<Rightarrow> School" where
  "mkNamed nm coords =
     \<lparr>School.id' = [], name = nm, address = [],
      contactInfo = \<lparr>phone = [], email = [], website = None\<rparr>,
      polygon = \<lparr>PolygonCoordinates.coordinates = coords\<rparr>, detected = False, color = None,
      additionalData = None\<rparr>"

definition noLayers :: "LayerType \<rightharpoonup> unit LayerFeature list" where
  "noLayers = Map.empty"

section \<open>Rounding\<close>

lemma roundEven_of_int [simp]: "roundEven (of_int n) = n"
  by (simp add: roundEven_def)

lemma roundEven_cases: "roundEven y = \<lfloor>y\<rfloor> \<or> roundEven y = \<lfloor>y\<rfloor> + 1"
  by (simp add: roundEven_def Let_def)

lemma roundEven_mono:
  assumes "x \<le> y"
  shows "roundEven x \<le> roundEven y"
proof (cases "\<lfloor>x\<rfloor> = \<lfloor>y\<rfloor>")
  case True
  with assms show ?thesis by (auto simp add: roundEven_def Let_def)
next
  case False
  with assms have "\<lfloor>x\<rfloor> + 1 \<le> \<lfloor>y\<rfloor>" using floor_mono [OF assms] by linarith
  moreover have "roundEven x \<le> \<lfloor>x\<rfloor> + 1" using roundEven_cases [of x] by linarith
  moreover have "\<lfloor>y\<rfloor> \<le> roundEven y" using roundEven_cases [of y] by linarith
  ultimately show ?thesis by linarith
qed

lemma roundEven_error: "\<bar>of_int (roundEven y) - y\<bar> \<le> 1 / 2"
  by (auto simp add: roundEven_def Let_def abs_le_iff)

lemma roundEven_ge: "of_int n \<le> y \<Longrightarrow> n \<le> roundEven y"
  using roundEven_mono [of "of_int n" y] by simp

lemma roundEven_le: "y \<le> of_int n \<Longrightarrow> roundEven y \<le> n"
  using roundEven_mono [of y "of_int n"] by simp

lemma ulpExp_eq:
  assumes "2 powi e \<le> \<bar>x\<bar>" "\<bar>x\<bar> < 2 powi (e + 1)"
  shows "ulpExp x = e - 52"
proof -
  have pos: "0 < \<bar>x\<bar>" using assms(1) by (smt (verit) zero_less_power_int)
  have a: "2 powr real_of_int e = 2 powi e" and b: "2 powr (real_of_int e + 1) = 2 powi (e + 1)"
    using powr_real_of_int' [of 2 e] powr_real_of_int' [of 2 "e + 1"] by simp_all
  have "\<lfloor>log 2 \<bar>x\<bar>\<rfloor> = e"
    using assms pos by (simp add: floor_log_eq_powr_iff a b)
  then show ?thesis by (simp add: ulpExp_def)
qed

lemma fl_eval:
  assumes "2 powi e \<le> \<bar>x\<bar>" "\<bar>x\<bar> < 2 powi (e + 1)"
  shows "fl x = of_int (roundEven (x / 2 powi (e - 52))) * 2 powi (e - 52)"
proof -
  have "x \<noteq> 0" using assms(1) by (smt (verit) zero_less_power_int abs_zero)
  then show ?thesis by (simp add: fl_def ulpExp_eq [OF assms])
qed

lemma ulpExp_bounds:
  assumes "x \<noteq> 0"
  shows "2 powi (ulpExp x + 52) \<le> \<bar>x\<bar>" and "\<bar>x\<bar> < 2 powi (ulpExp x + 53)"
proof -
  define e where "e = \<lfloor>log 2 \<bar>x\<bar>\<rfloor>"
  have pos: "0 < \<bar>x\<bar>" using assms by simp
  have a: "2 powr real_of_int e = 2 powi e" and b: "2 powr (real_of_int e + 1) = 2 powi (e + 1)"
    using powr_real_of_int' [of 2 e] powr_real_of_int' [of 2 "e + 1"] by simp_all
  have "2 powr real_of_int e \<le> \<bar>x\<bar> \<and> \<bar>x\<bar> < 2 powr (real_of_int e + 1)"
    using floor_log_eq_powr_iff [OF pos, of 2 e] by (simp add: e_def)
  then have c: "2 powi e \<le> \<bar>x\<bar>" "\<bar>x\<bar> < 2 powi (e + 1)" by (simp_all add: a b)
  have d: "ulpExp x + 52 = e" "ulpExp x + 53 = e + 1" by (simp_all add: ulpExp_def e_def)
  show "2 powi (ulpExp x + 52) \<le> \<bar>x\<bar>" and "\<bar>x\<bar> < 2 powi (ulpExp x + 53)"
    unfolding d by (rule c)+
qed

lemma ulpExp_mono:
  assumes "0 < x" "x \<le> y"
  shows "ulpExp x \<le> ulpExp y"
proof -
  have "log 2 \<bar>x\<bar> \<le> log 2 \<bar>y\<bar>" using assms by simp
  then show ?thesis unfolding ulpExp_def using floor_mono by fastforce
qed

lemma scaled_bounds:
  assumes "0 < x"
  shows "2 ^ 52 \<le> x / 2 powi ulpExp x" and "x / 2 powi ulpExp x < 2 ^ 53"
proof -
  have u: "0 < (2::real) powi ulpExp x" by simp
  have "2 powi (ulpExp x + 52) = (2::real) powi ulpExp x * 2 ^ 52"
    by (simp add: power_int_add)
  moreover have "2 powi (ulpExp x + 53) = (2::real) powi ulpExp x * 2 ^ 53"
    by (simp add: power_int_add)
  ultimately have "2 powi ulpExp x * 2 ^ 52 \<le> x" "x < 2 powi ulpExp x * 2 ^ 53"
    using ulpExp_bounds [of x] assms by simp_all
  then show "2 ^ 52 \<le> x / 2 powi ulpExp x" and "x / 2 powi ulpExp x < 2 ^ 53"
    using u by (simp_all add: pos_le_divide_eq pos_divide_less_eq mult.commute)
qed

lemma fl_bounds:
  assumes "0 < x"
  shows "2 powi (ulpExp x + 52) \<le> fl x" and "fl x \<le> 2 powi (ulpExp x + 53)"
proof -
  have u: "0 < (2::real) powi ulpExp x" by simp
  have f: "fl x = of_int (roundEven (x / 2 powi ulpExp x)) * 2 powi ulpExp x"
    using assms by (simp add: fl_def)
  have "2 ^ 52 \<le> roundEven (x / 2 powi ulpExp x)"
    using scaled_bounds(1) [OF assms] roundEven_ge [of "2 ^ 52" "x / 2 powi ulpExp x"] by simp
  then have "(2::real) ^ 52 \<le> of_int (roundEven (x / 2 powi ulpExp x))"
    by (metis of_int_le_iff of_int_numeral of_int_power)
  then have "2 ^ 52 * 2 powi ulpExp x \<le> fl x"
    unfolding f using u by (intro mult_right_mono) simp_all
  then show "2 powi (ulpExp x + 52) \<le> fl x" by (simp add: power_int_add mult.commute)
  have "roundEven (x / 2 powi ulpExp x) \<le> 2 ^ 53"
    using scaled_bounds(2) [OF assms] roundEven_le [of "x / 2 powi ulpExp x" "2 ^ 53"] by simp
  then have "of_int (roundEven (x / 2 powi ulpExp x)) \<le> (2::real) ^ 53"
    by (metis of_int_le_iff of_int_numeral of_int_power)
  then have "fl x \<le> 2 ^ 53 * 2 powi ulpExp x"
    unfolding f using u by (intro mult_right_mono) simp_all
  then show "fl x \<le> 2 powi (ulpExp x + 53)" by (simp add: power_int_add mult.commute)
qed

lemma fl_pos: "0 < x \<Longrightarrow> 0 < fl x"
  using fl_bounds(1) [of x] by (smt (verit) zero_less_power_int)

lemma fl_mono:
  assumes "0 < x" "x \<le> y"
  shows "fl x \<le> fl y"
proof (cases "ulpExp x = ulpExp y")
  case True
  have y: "0 < y" using assms by simp
  have u: "0 < (2::real) powi ulpExp y" by simp
  have "x / 2 powi ulpExp y \<le> y / 2 powi ulpExp y"
    using assms(2) u by (simp add: divide_right_mono)
  then have "roundEven (x / 2 powi ulpExp y) \<le> roundEven (y / 2 powi ulpExp y)"
    by (rule roundEven_mono)
  then have "real_of_int (roundEven (x / 2 powi ulpExp y)) * 2 powi ulpExp y
      \<le> real_of_int (roundEven (y / 2 powi ulpExp y)) * 2 powi ulpExp y"
    using u by (intro mult_right_mono) simp_all
  then show ?thesis using assms y True by (simp add: fl_def)
next
  case False
  have y: "0 < y" using assms by simp
  from False ulpExp_mono [OF assms] have "ulpExp x + 53 \<le> ulpExp y + 52" by linarith
  then have "(2::real) powi (ulpExp x + 53) \<le> 2 powi (ulpExp y + 52)"
    by (intro power_int_increasing) simp_all
  with fl_bounds(2) [OF assms(1)] fl_bounds(1) [OF y] show ?thesis by linarith
qed

lemma fl_error:
  assumes "0 < x"
  shows "\<bar>fl x - x\<bar> \<le> x / 2 ^ 53"
proof -
  define u :: real where "u = 2 powi ulpExp x"
  have u: "0 < u" by (simp add: u_def)
  have f: "fl x = of_int (roundEven (x / u)) * u"
    using assms by (simp add: fl_def u_def)
  have "fl x - x = (of_int (roundEven (x / u)) - x / u) * u"
    unfolding f using u by (simp add: algebra_simps)
  then have "\<bar>fl x - x\<bar> = \<bar>of_int (roundEven (x / u)) - x / u\<bar> * u"
    using u by (simp add: abs_mult)
  also have "\<dots> \<le> 1 / 2 * u"
    using roundEven_error [of "x / u"] u by (intro mult_right_mono) simp_all
  also have "u * 2 ^ 52 \<le> x"
    using scaled_bounds(1) [OF assms] u by (simp add: u_def pos_le_divide_eq mult.commute)
  then have "1 / 2 * u \<le> x / 2 ^ 53" by simp
  finally show ?thesis .
qed

lemma fl_representable:
  assumes "\<bar>m\<bar> < 2 ^ 53"
  shows "fl (of_int m * 2 powi j) = of_int m * 2 powi j"
proof (cases "m = 0")
  case True
  then show ?thesis by (simp add: fl_def)
next
  case False
  define x :: real where "x = of_int m * 2 powi j"
  have x0: "x \<noteq> 0" using False by (simp add: x_def)
  have "\<bar>x\<bar> = of_int \<bar>m\<bar> * 2 powi j" by (simp add: x_def abs_mult)
  also have "\<dots> < 2 ^ 53 * 2 powi j"
  proof -
    have "real_of_int \<bar>m\<bar> < 2 ^ 53"
      using assms by (metis of_int_less_iff of_int_numeral of_int_power)
    then show ?thesis by (intro mult_strict_right_mono) simp_all
  qed
  also have "\<dots> = 2 powi (j + 53)" by (simp add: power_int_add mult.commute)
  finally have "\<bar>x\<bar> < 2 powi (j + 53)" .
  with ulpExp_bounds(1) [OF x0] have "(2::real) powi (ulpExp x + 52) < 2 powi (j + 53)" by linarith
  then have "ulpExp x + 52 < j + 53"
    by (smt (verit) power_int_increasing)
  then have k: "ulpExp x \<le> j" by simp
  have "x / 2 powi ulpExp x = of_int m * 2 powi (j - ulpExp x)"
    by (simp add: x_def power_int_diff)
  also have "\<dots> = of_int m * 2 ^ nat (j - ulpExp x)"
    using k by (simp add: power_int_def)
  also have "\<dots> = of_int (m * 2 ^ nat (j - ulpExp x))" by simp
  finally have "roundEven (x / 2 powi ulpExp x) = m * 2 ^ nat (j - ulpExp x)"
    by (simp only: roundEven_of_int)
  then have "fl x = of_int (m * 2 ^ nat (j - ulpExp x)) * 2 powi ulpExp x"
    using x0 by (simp add: fl_def)
  also have "\<dots> = of_int m * (2 powi (j - ulpExp x) * 2 powi ulpExp x)"
    using k by (simp add: power_int_def)
  also have "2 powi (j - ulpExp x) * 2 powi ulpExp x = (2::real) powi j"
    by (simp add: power_int_diff)
  finally show ?thesis by (simp add: x_def)
qed

lemma fl_of_int: "\<bar>m\<bar> < 2 ^ 53 \<Longrightarrow> fl (of_int m) = of_int m"
  using fl_representable [of m 0] by simp

lemma fl_small_numerals [simp]:
  "fl 1 = 1" "fl 2 = 2" "fl 3 = 3" "fl 4 = 4" "fl 5 = 5"
  using fl_of_int [of 1] fl_of_int [of 2] fl_of_int [of 3] fl_of_int [of 4] fl_of_int [of 5]
  by simp_all

section \<open>The zone builder\<close>

lemma zonesLoop_upto:
  "zonesLoop turf c T W n i = map (makeZone turf c T W n) [i..n]"
proof (induction turf c T W n i rule: zonesLoop.induct)
  case (1 turf c T W n i)
  show ?case
  proof (cases "i \<le> n")
    case True
    then show ?thesis
      using "1.IH" by (subst zonesLoop.simps) (simp add: upto_rec1 [of i n])
  next
    case False
    then show ?thesis
      by (subst zonesLoop.simps) simp
  qed
qed

lemma makeZone_sel [simp]:
  "BufferZone.id' (makeZone turf c T W n i) = i"
  "BufferZone.radiusKm (makeZone turf c T W n i) = min (fl (real_of_int i * W)) T"
  "BufferZone.riskLevel (makeZone turf c T W n i) = calculateRiskLevel i n"
  "BufferZone.color (makeZone turf c T W n i) = getRiskColor (calculateRiskLevel i n)"
  "BufferZone.fillOpacity (makeZone turf c T W n i) = getFillOpacity i n"
  "BufferZone.polygon (makeZone turf c T W n i)
     = buffer turf (snd c, fst c) (min (fl (real_of_int i * W)) T)"
  by (simp_all add: makeZone_def Let_def)

lemma createBufferZones_nonzero:
  assumes "zoneWidth (configOrDefault this config) \<noteq> 0"
  shows "createBufferZones turf this c config =
     Some (map (makeZone turf c (totalRadius (configOrDefault this config))
                  (zoneWidth (configOrDefault this config))
                  \<lceil>fl (totalRadius (configOrDefault this config) / zoneWidth (configOrDefault this config))\<rceil>)
         [1..\<lceil>fl (totalRadius (configOrDefault this config) / zoneWidth (configOrDefault this config))\<rceil>])"
  using assms by (simp add: createBufferZones_def Let_def zonesLoop_upto)

lemma numZones_positive:
  fixes T W :: real
  assumes "0 < T" "0 < W"
  shows "1 \<le> \<lceil>fl (T / W)\<rceil>"
proof -
  have "0 < fl (T / W)" using assms by (intro fl_pos) simp
  then show ?thesis by (simp add: one_le_ceiling)
qed

lemma radii_zoneRadii:
  assumes "zoneWidth (configOrDefault this config) \<noteq> 0"
    and "createBufferZones turf this c config = Some zs"
  shows "map BufferZone.radiusKm zs = zoneRadii (configOrDefault this config)"
  using assms(2) unfolding createBufferZones_nonzero [OF assms(1)]
  by (auto simp add: zoneRadii_def comp_def)



lemma fl_lower:
  assumes "0 < x"
  shows "x * (1 - 1 / 2 ^ 53) \<le> fl x"
proof -
  have "x - fl x \<le> x / 2 ^ 53" using fl_error [OF assms] by linarith
  moreover have "x * (1 - 1 / 2 ^ 53) = x - x / 2 ^ 53" by (simp add: right_diff_distrib)
  ultimately show ?thesis by linarith
qed

lemma last_radius_bound:
  fixes T W :: real
  assumes T: "0 < T" and W: "0 < W"
  shows "T * (1 - 1 / 2 ^ 52) \<le> min (fl (real_of_int \<lceil>fl (T / W)\<rceil> * W)) T"
proof -
  define e :: real where "e = 1 - 1 / 2 ^ 53"
  have e: "0 < e" "e \<le> 1" by (simp_all add: e_def)
  define n where "n = \<lceil>fl (T / W)\<rceil>"
  have q: "0 < T / W" using T W by simp
  have "T / W * e \<le> fl (T / W)" unfolding e_def using q by (rule fl_lower)
  also have "\<dots> \<le> real_of_int n" by (simp add: n_def)
  finally have "T / W * e * W \<le> real_of_int n * W"
    using W by (intro mult_right_mono) simp_all
  then have nW: "T * e \<le> real_of_int n * W" using W by simp
  have "0 < T * e" using T e by simp
  with nW have p: "0 < real_of_int n * W" by linarith
  have "real_of_int n * W * e \<le> fl (real_of_int n * W)" unfolding e_def using p by (rule fl_lower)
  moreover have "T * e * e \<le> real_of_int n * W * e"
    using nW e by (intro mult_right_mono) simp_all
  moreover have "T * (1 - 1 / 2 ^ 52) \<le> T * e * e"
  proof -
    have "1 - 1 / 2 ^ 52 \<le> e * e" by (simp add: e_def algebra_simps)
    then have "T * (1 - 1 / 2 ^ 52) \<le> T * (e * e)"
      using T by (intro mult_left_mono) simp_all
    then show ?thesis by (simp add: mult.assoc)
  qed
  ultimately have "T * (1 - 1 / 2 ^ 52) \<le> fl (real_of_int n * W)" by linarith
  moreover have "T * (1 - 1 / 2 ^ 52) \<le> T" using T by (simp add: algebra_simps)
  ultimately show ?thesis by (simp add: n_def)
qed

text \<open>
  Claim C7. Zone \<open>i\<close> (1-based) of \<open>n\<close> zones has risk level high when \<open>i / n \<le> 0.6\<close>,
  medium when \<open>0.6 < i / n \<le> 0.8\<close>, and low otherwise.
\<close>

theorem createBufferZones_riskLevels:
  assumes cfg: "cfg = configOrDefault this config"
    and T: "0 < totalRadius cfg" and W: "0 < zoneWidth cfg"
  shows "\<exists>zs. createBufferZones turf this c config = Some zs
     \<and> (\<forall>k < length zs. BufferZone.riskLevel (zs ! k) =
           (if real (k + 1) / real (length zs) \<le> 0.6 then High
            else if real (k + 1) / real (length zs) \<le> 0.8 then Medium
            else Low))"
proof -
  define n where "n = \<lceil>fl (totalRadius cfg / zoneWidth cfg)\<rceil>"
  define zs where "zs = map (makeZone turf c (totalRadius cfg) (zoneWidth cfg) n) [1..n]"
  have n1: "1 \<le> n" unfolding n_def using T W by (rule numZones_positive)
  have W0: "zoneWidth (configOrDefault this config) \<noteq> 0" using W cfg by simp
  have run: "createBufferZones turf this c config = Some zs"
    unfolding zs_def n_def cfg by (rule createBufferZones_nonzero [OF W0])
  have len: "int (length zs) = n" using n1 by (simp add: zs_def)
  have "BufferZone.riskLevel (zs ! k) =
           (if real (k + 1) / real (length zs) \<le> 0.6 then High
            else if real (k + 1) / real (length zs) \<le> 0.8 then Medium
            else Low)" if k: "k < length zs" for k
  proof -
    have "zs ! k = makeZone turf c (totalRadius cfg) (zoneWidth cfg) n (int k + 1)"
      using k len by (simp add: zs_def add.commute)
    moreover have "real_of_int (int k + 1) = real (k + 1)" by simp
    moreover have "real_of_int n = real (length zs)" using len by (metis of_int_of_nat_eq)
    ultimately show ?thesis by (simp only: makeZone_sel calculateRiskLevel_def Let_def)
  qed
  with run show ?thesis by (intro exI [of _ zs] conjI allI impI)
qed



text \<open>Width 1 and total 5 give the levels high, high, high, medium, low.\<close>

theorem createBufferZones_riskLevels_witness:
  "0 < totalRadius \<lparr>totalRadius = 5, zoneWidth = 1\<rparr>
   \<and> 0 < zoneWidth \<lparr>totalRadius = 5, zoneWidth = 1\<rparr>
   \<and> (\<exists>zs. createBufferZones planarTurf service (-31.4, -64.2)
              (Some \<lparr>totalRadius = 5, zoneWidth = 1\<rparr>) = Some zs
          \<and> map BufferZone.riskLevel zs = [High, High, High, Medium, Low])"
proof -
  let ?cfg = "\<lparr>totalRadius = 5, zoneWidth = 1\<rparr>"
  have cfg: "?cfg = configOrDefault service (Some ?cfg)" by (simp add: configOrDefault_def)
  have T: "0 < totalRadius ?cfg" and W: "0 < zoneWidth ?cfg" by simp_all
  from createBufferZones_riskLevels [OF cfg T W, of planarTurf "(-31.4, -64.2)"]
  obtain zs where run: "createBufferZones planarTurf service (-31.4, -64.2) (Some ?cfg) = Some zs"
    and nth: "\<forall>k < length zs. BufferZone.riskLevel (zs ! k) =
           (if real (k + 1) / real (length zs) \<le> 0.6 then High
            else if real (k + 1) / real (length zs) \<le> 0.8 then Medium
            else Low)"
    by blast
  have "createBufferZones planarTurf service (-31.4, -64.2) (Some ?cfg)
      = Some (map (makeZone planarTurf (-31.4, -64.2) 5 1 5) [1..5])"
    using createBufferZones_nonzero [of service "Some ?cfg" planarTurf "(-31.4, -64.2)"]
    by (simp add: configOrDefault_def)
  with run have len5: "length zs = 5" by auto
  have "map BufferZone.riskLevel zs = [High, High, High, Medium, Low]"
    using nth len5 by (simp add: list_eq_iff_nth_eq less_Suc_eq numeral_eq_Suc)
  with run have "\<exists>zs. createBufferZones planarTurf service (-31.4, -64.2) (Some ?cfg) = Some zs
          \<and> map BufferZone.riskLevel zs = [High, High, High, Medium, Low]" by simp
  with T W show ?thesis by (intro conjI)
qed

lemma ratio_above:
  fixes i n a b :: int
  assumes n: "0 < n" "n < 2 ^ 32" and b: "0 < b"
    and gt: "real_of_int a / real_of_int b < real_of_int i / real_of_int n"
  shows "real_of_int a / real_of_int b + 1 / (real_of_int b * 2 ^ 32) \<le> real_of_int i / real_of_int n"
proof -
  have "real_of_int a * real_of_int n < real_of_int i * real_of_int b"
    using gt n b by (simp add: field_simps)
  then have "real_of_int (a * n) < real_of_int (i * b)" by simp
  then have "a * n < i * b" by (simp only: of_int_less_iff)
  then have "a * n + 1 \<le> i * b" by simp
  then have "real_of_int (a * n + 1) \<le> real_of_int (i * b)" by (simp only: of_int_le_iff)
  then have "real_of_int a * real_of_int n + 1 \<le> real_of_int i * real_of_int b" by simp
  then have "(real_of_int a * real_of_int n + 1) / (real_of_int b * real_of_int n)
      \<le> (real_of_int i * real_of_int b) / (real_of_int b * real_of_int n)"
    using n b by (intro divide_right_mono) simp_all
  moreover have "(real_of_int a * real_of_int n + 1) / (real_of_int b * real_of_int n)
      = real_of_int a / real_of_int b + 1 / (real_of_int b * real_of_int n)"
    using n b by (simp add: add_divide_distrib)
  moreover have "(real_of_int i * real_of_int b) / (real_of_int b * real_of_int n)
      = real_of_int i / real_of_int n"
    using n b by simp
  ultimately have "real_of_int a / real_of_int b + 1 / (real_of_int b * real_of_int n)
      \<le> real_of_int i / real_of_int n"
    by simp
  moreover have "1 / (real_of_int b * 2 ^ 32) \<le> 1 / (real_of_int b * real_of_int n)"
  proof -
    have "real_of_int n \<le> 2 ^ 32"
      using n(2) by (metis less_imp_le of_int_le_iff of_int_numeral of_int_power)
    then have "real_of_int b * real_of_int n \<le> real_of_int b * 2 ^ 32"
      using b by (intro mult_left_mono) simp_all
    moreover have "0 < real_of_int b * real_of_int n" using n b by simp
    ultimately show ?thesis by (intro divide_left_mono) simp_all
  qed
  ultimately show ?thesis by linarith
qed

lemma fl_decimal_thresholds:
  "fl (6 / 10) = 5404319552844595 / 2 ^ 53" "fl (8 / 10) = 7205759403792794 / 2 ^ 53"
  by (simp_all add: fl_eval [of "-1"] roundEven_def power_int_minus_divide)

lemma fl_above_thresholds:
  "fl (5404319552852787 / 2 ^ 53) = 5404319552852787 / 2 ^ 53"
  "fl (7205759403800986 / 2 ^ 53) = 7205759403800986 / 2 ^ 53"
  using fl_representable [of 5404319552852787 "-53"] fl_representable [of 7205759403800986 "-53"]
  by (simp_all add: power_int_minus_divide)

text \<open>
  For fewer than \<open>2^32\<close> zones the comparisons of \<^verbatim>\<open>calculateRiskLevel\<close> give the same answer
  on the rounded ratio and the double thresholds as on the exact ratio and the decimal
  thresholds.
\<close>

lemma ratio_thresholds:
  fixes i n :: int
  assumes i: "1 \<le> i" and n: "i \<le> n" "n < 2 ^ 32"
  shows "(fl (real_of_int i / real_of_int n) \<le> fl (6 / 10)) = (real_of_int i / real_of_int n \<le> 0.6)"
    and "(fl (real_of_int i / real_of_int n) \<le> fl (8 / 10)) = (real_of_int i / real_of_int n \<le> 0.8)"
proof -
  have n0: "0 < n" using i n by simp
  have r: "0 < real_of_int i / real_of_int n" using i n0 by simp
  show "(fl (real_of_int i / real_of_int n) \<le> fl (6 / 10)) = (real_of_int i / real_of_int n \<le> 0.6)"
  proof
    assume le: "fl (real_of_int i / real_of_int n) \<le> fl (6 / 10)"
    show "real_of_int i / real_of_int n \<le> 0.6"
    proof (rule ccontr)
      assume "\<not> real_of_int i / real_of_int n \<le> 0.6"
      then have "real_of_int 3 / real_of_int 5 < real_of_int i / real_of_int n" by simp
      from ratio_above [OF n0 n(2) _ this]
      have "3 / 5 + 1 / (5 * 2 ^ 32) \<le> real_of_int i / real_of_int n" by simp
      moreover have "(5404319552852787 / 2 ^ 53 :: real) \<le> 3 / 5 + 1 / (5 * 2 ^ 32)" by simp
      ultimately have "5404319552852787 / 2 ^ 53 \<le> real_of_int i / real_of_int n" by linarith
      then have "fl (5404319552852787 / 2 ^ 53) \<le> fl (real_of_int i / real_of_int n)"
        by (intro fl_mono) simp_all
      then have "5404319552852787 / 2 ^ 53 \<le> fl (real_of_int i / real_of_int n)"
        by (simp only: fl_above_thresholds)
      moreover from le have "fl (real_of_int i / real_of_int n) \<le> 5404319552844595 / 2 ^ 53"
        by (simp only: fl_decimal_thresholds)
      ultimately have "(5404319552852787 / 2 ^ 53 :: real) \<le> 5404319552844595 / 2 ^ 53"
        by (rule order_trans)
      then show False by simp
    qed
  next
    assume "real_of_int i / real_of_int n \<le> 0.6"
    then have "real_of_int i / real_of_int n \<le> 6 / 10" by simp
    with r show "fl (real_of_int i / real_of_int n) \<le> fl (6 / 10)" by (rule fl_mono)
  qed
  show "(fl (real_of_int i / real_of_int n) \<le> fl (8 / 10)) = (real_of_int i / real_of_int n \<le> 0.8)"
  proof
    assume le: "fl (real_of_int i / real_of_int n) \<le> fl (8 / 10)"
    show "real_of_int i / real_of_int n \<le> 0.8"
    proof (rule ccontr)
      assume "\<not> real_of_int i / real_of_int n \<le> 0.8"
      then have "real_of_int 4 / real_of_int 5 < real_of_int i / real_of_int n" by simp
      from ratio_above [OF n0 n(2) _ this]
      have "4 / 5 + 1 / (5 * 2 ^ 32) \<le> real_of_int i / real_of_int n" by simp
      moreover have "(7205759403800986 / 2 ^ 53 :: real) \<le> 4 / 5 + 1 / (5 * 2 ^ 32)" by simp
      ultimately have "7205759403800986 / 2 ^ 53 \<le> real_of_int i / real_of_int n" by linarith
      then have "fl (7205759403800986 / 2 ^ 53) \<le> fl (real_of_int i / real_of_int n)"
        by (intro fl_mono) simp_all
      then have "7205759403800986 / 2 ^ 53 \<le> fl (real_of_int i / real_of_int n)"
        by (simp only: fl_above_thresholds)
      moreover from le have "fl (real_of_int i / real_of_int n) \<le> 7205759403792794 / 2 ^ 53"
        by (simp only: fl_decimal_thresholds)
      ultimately have "(7205759403800986 / 2 ^ 53 :: real) \<le> 7205759403792794 / 2 ^ 53"
        by (rule order_trans)
      then show False by simp
    qed
  next
    assume "real_of_int i / real_of_int n \<le> 0.8"
    then have "real_of_int i / real_of_int n \<le> 8 / 10" by simp
    with r show "fl (real_of_int i / real_of_int n) \<le> fl (8 / 10)" by (rule fl_mono)
  qed
qed

section \<open>The decimals 0.6, 1.8 and 4.2\<close>

lemma fl_decimals:
  "fl (6 / 10) = d0_6" "fl (18 / 10) = d1_8" "fl (42 / 10) = d4_2"
  by (simp_all add: fl_eval [of "-1"] fl_eval [of 0] fl_eval [of 2] roundEven_def
      power_int_minus_divide d0_6_def d1_8_def d4_2_def)

lemma quotients:
  "fl (d1_8 / d0_6) = 3" "fl (d4_2 / d0_6) = 7 + 1 / 2 ^ 50"
  by (simp_all add: fl_eval [of 1] fl_eval [of 2] roundEven_def
      power_int_minus_divide d0_6_def d1_8_def d4_2_def)

lemma products:
  "fl d0_6 = d0_6"
  "fl (2 * d0_6) = 2 * d0_6"
  "fl (3 * d0_6) = 8106479329266892 / 2 ^ 52"
  "fl (4 * d0_6) = 4 * d0_6"
  "fl (5 * d0_6) = 3"
  "fl (6 * d0_6) = 8106479329266892 / 2 ^ 51"
  "fl (7 * d0_6) = d4_2"
  "fl (8 * d0_6) = 8 * d0_6"
  by (simp_all add: fl_eval [of "-1"] fl_eval [of 0] fl_eval [of 1] fl_eval [of 2] roundEven_def
      power_int_minus_divide d0_6_def d4_2_def)

section \<open>The aggregator\<close>

lemma calculateStatisticsLoop_length:
  "length (calculateStatisticsLoop turf prev zs ss lf) = length zs"
  by (induction zs arbitrary: prev) (simp_all add: Let_def)

lemma calculateStatisticsLoop_nth:
  "k < length zs \<Longrightarrow>
   calculateStatisticsLoop turf prev zs ss lf ! k =
     zoneStatistics turf (zs ! k)
       (createRingPolygon turf (BufferZone.polygon (zs ! k)) (prev @ map BufferZone.polygon (take k zs)))
       ss lf"
proof (induction zs arbitrary: prev k)
  case Nil
  then show ?case by simp
next
  case (Cons z zs)
  show ?case
  proof (cases k)
    case 0
    then show ?thesis by (simp add: Let_def)
  next
    case (Suc j)
    with Cons.prems have "j < length zs" by simp
    from Cons.IH [OF this, of "prev @ [BufferZone.polygon z]"] Suc
    show ?thesis by (simp add: Let_def)
  qed
qed

lemma createRingPolygon_ringOfZone:
  assumes "k < length zs"
  shows "createRingPolygon turf (BufferZone.polygon (zs ! k)) (map BufferZone.polygon (take k zs))
         = ringOfZone turf zs k"
proof (cases k)
  case 0
  then show ?thesis by (simp add: createRingPolygon_def ringOfZone_def)
next
  case (Suc j)
  with assms have j: "j < length zs" by simp
  have "map BufferZone.polygon (take k zs) ! (length (map BufferZone.polygon (take k zs)) - 1)
        = BufferZone.polygon (zs ! j)"
    using assms Suc by simp
  then show ?thesis
    using assms Suc by (simp add: createRingPolygon_def ringOfZone_def Let_def split: Difference.splits)
qed

lemma calculateStatistics_length:
  "length (calculateStatistics turf zs ss lf) = length zs"
  by (simp add: calculateStatistics_def calculateStatisticsLoop_length)

lemma calculateStatistics_nth:
  assumes "k < length zs"
  shows "calculateStatistics turf zs ss lf ! k = zoneStatistics turf (zs ! k) (ringOfZone turf zs k) ss lf"
  using assms calculateStatisticsLoop_nth [OF assms, of turf "[]" ss lf]
  by (simp add: calculateStatistics_def createRingPolygon_ringOfZone)

text \<open>
  Claim C3. The statistics of the zone at position \<open>k\<close> are counted against the ring of
  that zone: the first zone's full buffer, and for a later zone the polygon difference of
  its full buffer and the immediately preceding zone's full buffer, or its own full
  buffer when the difference throws or is empty. The aggregator returns one entry per
  zone whatever the difference does.
\<close>

theorem aggregator_ring:
  assumes "k < length zoneList"
  shows "length (calculateStatistics turf zoneList schoolList layerFeatures) = length zoneList
     \<and> calculateStatistics turf zoneList schoolList layerFeatures ! k
         = zoneStatistics turf (zoneList ! k) (ringOfZone turf zoneList k) schoolList layerFeatures
     \<and> ringOfZone turf zoneList k =
         (if k = 0 then BufferZone.polygon (zoneList ! k)
          else case difference turf (BufferZone.polygon (zoneList ! k))
                                    (BufferZone.polygon (zoneList ! (k - 1))) of
                 Feature d \<Rightarrow> d
               | Null \<Rightarrow> BufferZone.polygon (zoneList ! k)
               | Threw \<Rightarrow> BufferZone.polygon (zoneList ! k))"
  using assms
  by (simp add: calculateStatistics_length calculateStatistics_nth ringOfZone_def)

lemma zoneStatistics_sel [simp]:
  "BufferZoneStats.schools (zoneStatistics turf z ring ss lf)
     = length (filter (\<lambda>s. booleanPointInPolygon turf (position (getSchoolCenter s)) ring) ss)"
  "BufferZoneStats.hospitals (zoneStatistics turf z ring ss lf)
     = length (filter (\<lambda>f. booleanPointInPolygon turf (position (LayerFeature.coordinates f)) ring)
         (getOrEmpty lf Hospitals))"
  "BufferZoneStats.police (zoneStatistics turf z ring ss lf)
     = length (filter (\<lambda>f. booleanPointInPolygon turf (position (LayerFeature.coordinates f)) ring)
         (getOrEmpty lf Police))"
  "BufferZoneStats.fireStations (zoneStatistics turf z ring ss lf)
     = length (filter (\<lambda>f. booleanPointInPolygon turf (position (LayerFeature.coordinates f)) ring)
         (getOrEmpty lf Fire_stations))"
  "BufferZoneStats.riskZones (zoneStatistics turf z ring ss lf)
     = length (filter (\<lambda>f. booleanPointInPolygon turf (position (LayerFeature.coordinates f)) ring)
         (getOrEmpty lf Risk_zones))"
  "zoneId (zoneStatistics turf z ring ss lf) = BufferZone.id' z"
  "BufferZoneStats.radiusKm (zoneStatistics turf z ring ss lf) = BufferZone.radiusKm z"
  "BufferZoneStats.riskLevel (zoneStatistics turf z ring ss lf) = BufferZone.riskLevel z"
  by (simp_all add: zoneStatistics_def Let_def countPointsInPolygon_def countFeaturesInPolygon_def
      position_def filter_map comp_def)

lemma getSchoolCenter_square:
  "getSchoolCenter (mkSchool i n squareCoords) = (-31.3992, -64.1992)"
  by (simp add: getSchoolCenter_def mkSchool_def squareCoords_def)


text \<open>
  The second default zone: with the planar library the ring is the difference of the
  2 km and the 1 km buffer and does not count a school at the centre; when the difference
  throws the ring is the 2 km buffer and counts it.
\<close>

theorem aggregator_ring_witness:
  "(1::nat) < length (map (makeZone planarTurf (-31.3992, -64.1992) 5 1 5) [1, 2, 3, 4, 5])
   \<and> BufferZoneStats.schools (calculateStatistics planarTurf
         (map (makeZone planarTurf (-31.3992, -64.1992) 5 1 5) [1, 2, 3, 4, 5])
         [mkSchool ''1'' ''Escuela Normal'' squareCoords] noLayers ! 1) = 0
   \<and> ringOfZone planarTurf (map (makeZone planarTurf (-31.3992, -64.1992) 5 1 5) [1, 2, 3, 4, 5]) 1
       = Minus (Disc (-64.1992, -31.3992) 2) (Disc (-64.1992, -31.3992) 1)
   \<and> BufferZoneStats.schools (calculateStatistics failingTurf
         (map (makeZone failingTurf (-31.3992, -64.1992) 5 1 5) [1, 2, 3, 4, 5])
         [mkSchool ''1'' ''Escuela Normal'' squareCoords] noLayers ! 1) = 1
   \<and> ringOfZone failingTurf (map (makeZone failingTurf (-31.3992, -64.1992) 5 1 5) [1, 2, 3, 4, 5]) 1
       = Disc (-64.1992, -31.3992) 2"
proof -
  let ?zs = "map (makeZone planarTurf (-31.3992, -64.1992) 5 1 5) [1, 2, 3, 4, 5]"
  let ?fs = "map (makeZone failingTurf (-31.3992, -64.1992) 5 1 5) [1, 2, 3, 4, 5]"
  let ?ss = "[mkSchool ''1'' ''Escuela Normal'' squareCoords]"
  have k: "(1::nat) < length ?zs" and k': "(1::nat) < length ?fs" by simp_all
  have rp: "ringOfZone planarTurf ?zs 1 = Minus (Disc (-64.1992, -31.3992) 2) (Disc (-64.1992, -31.3992) 1)"
    by (simp add: ringOfZone_def planarTurf_def)
  have rf: "ringOfZone failingTurf ?fs 1 = Disc (-64.1992, -31.3992) 2"
    by (simp add: ringOfZone_def failingTurf_def)
  from aggregator_ring [OF k, of planarTurf ?ss noLayers]
  have "calculateStatistics planarTurf ?zs ?ss noLayers ! 1
      = zoneStatistics planarTurf (?zs ! 1) (ringOfZone planarTurf ?zs 1) ?ss noLayers" by blast
  then have sp: "BufferZoneStats.schools (calculateStatistics planarTurf ?zs ?ss noLayers ! 1) = 0"
    unfolding rp by (simp add: getSchoolCenter_square position_def planarTurf_def)
  from aggregator_ring [OF k', of failingTurf ?ss noLayers]
  have "calculateStatistics failingTurf ?fs ?ss noLayers ! 1
      = zoneStatistics failingTurf (?fs ! 1) (ringOfZone failingTurf ?fs 1) ?ss noLayers" by blast
  then have sf: "BufferZoneStats.schools (calculateStatistics failingTurf ?fs ?ss noLayers ! 1) = 1"
    unfolding rf by (simp add: getSchoolCenter_square position_def failingTurf_def)
  from k sp rp sf rf show ?thesis by (intro conjI)
qed






section \<open>The zone radii in doubles\<close>

lemma upto_1_3: "[1..3::int] = [1, 2, 3]"
  by (simp add: upto_rec1)

lemma upto_1_8: "[1..8::int] = [1, 2, 3, 4, 5, 6, 7, 8]"
  by (simp add: upto_rec1)

lemma d0_6_nonzero: "d0_6 \<noteq> 0"
  by (simp add: d0_6_def)

lemma zones_1_8:
  "createBufferZones turf service c (Some \<lparr>totalRadius = d1_8, zoneWidth = d0_6\<rparr>)
     = Some (map (makeZone turf c d1_8 d0_6 3) [1, 2, 3])"
  using createBufferZones_nonzero [of service "Some \<lparr>totalRadius = d1_8, zoneWidth = d0_6\<rparr>" turf c]
    d0_6_nonzero
  by (simp add: configOrDefault_def quotients upto_1_3)

lemma zones_4_2:
  "createBufferZones turf service c (Some \<lparr>totalRadius = d4_2, zoneWidth = d0_6\<rparr>)
     = Some (map (makeZone turf c d4_2 d0_6 8) [1, 2, 3, 4, 5, 6, 7, 8])"
  using createBufferZones_nonzero [of service "Some \<lparr>totalRadius = d4_2, zoneWidth = d0_6\<rparr>" turf c]
    d0_6_nonzero
  by (simp add: configOrDefault_def quotients upto_1_8)

lemma clamped_1_8:
  "min (fl d0_6) d1_8 = d0_6"
  "min (fl (2 * d0_6)) d1_8 = 2 * d0_6"
  "min (fl (3 * d0_6)) d1_8 = d1_8 - 1 / 2 ^ 52"
  unfolding products by (simp_all add: d0_6_def d1_8_def)

lemma clamped_4_2:
  "min (fl d0_6) d4_2 = d0_6"
  "min (fl (2 * d0_6)) d4_2 = 2 * d0_6"
  "min (fl (3 * d0_6)) d4_2 = d1_8 - 1 / 2 ^ 52"
  "min (fl (4 * d0_6)) d4_2 = 4 * d0_6"
  "min (fl (5 * d0_6)) d4_2 = 3"
  "min (fl (6 * d0_6)) d4_2 = 2 * (d1_8 - 1 / 2 ^ 52)"
  "min (fl (7 * d0_6)) d4_2 = d4_2"
  "min (fl (8 * d0_6)) d4_2 = d4_2"
  unfolding products by (simp_all add: d0_6_def d1_8_def d4_2_def)

text \<open>
  Claim C1 does not hold of the program for a zone width of 0.6 and a total radius of
  1.8 (the doubles nearest to these decimals). The quotient rounds to 3 and the call
  returns three zones; the product \<^verbatim>\<open>3 * 0.6\<close> rounds to the double just below 1.8, so the
  radii are 0.6, 1.2 and 1.7999999999999998, and the last radius is one unit in the last
  place below the total radius, not equal to it.
\<close>

theorem last_radius_below_total:
  "fl (6 / 10) = d0_6 \<and> fl (18 / 10) = d1_8
   \<and> map_option (map BufferZone.radiusKm)
       (createBufferZones planarTurf service (-31.5, -64.25)
          (Some \<lparr>totalRadius = d1_8, zoneWidth = d0_6\<rparr>))
     = Some [d0_6, 2 * d0_6, d1_8 - 1 / 2 ^ 52]
   \<and> map_option (\<lambda>zs. BufferZone.radiusKm (last zs) = d1_8)
       (createBufferZones planarTurf service (-31.5, -64.25)
          (Some \<lparr>totalRadius = d1_8, zoneWidth = d0_6\<rparr>))
     = Some False"
proof (intro conjI)
  show "fl (6 / 10) = d0_6"
    by (rule fl_decimals)
  show "fl (18 / 10) = d1_8"
    by (rule fl_decimals)
  show "map_option (map BufferZone.radiusKm)
       (createBufferZones planarTurf service (-31.5, -64.25)
          (Some \<lparr>totalRadius = d1_8, zoneWidth = d0_6\<rparr>))
     = Some [d0_6, 2 * d0_6, d1_8 - 1 / 2 ^ 52]"
    by (simp add: zones_1_8 clamped_1_8)
  show "map_option (\<lambda>zs. BufferZone.radiusKm (last zs) = d1_8)
       (createBufferZones planarTurf service (-31.5, -64.25)
          (Some \<lparr>totalRadius = d1_8, zoneWidth = d0_6\<rparr>))
     = Some False"
    by (simp add: zones_1_8 clamped_1_8)
qed

text \<open>
  For a zone width of 0.6 and a total radius of 4.2 the quotient rounds to a double
  above 7, so that there are eight zones, and the last two have the radius 4.2.
\<close>

lemma radii_4_2:
  "map_option (map BufferZone.radiusKm)
       (createBufferZones planarTurf service (-31.5, -64.25)
          (Some \<lparr>totalRadius = d4_2, zoneWidth = d0_6\<rparr>))
     = Some [d0_6, 2 * d0_6, d1_8 - 1 / 2 ^ 52, 4 * d0_6, 3, 2 * (d1_8 - 1 / 2 ^ 52), d4_2, d4_2]"
  by (simp add: zones_4_2 clamped_4_2)



section \<open>Sums over the zones\<close>
















section \<open>Counting each feature once\<close>




section \<open>Schools without vertices\<close>






section \<open>The record linker\<close>

lemma getCenter_square: "getCenter squareCoords = Some (-31.3992, -64.1992)"
  by (simp add: getCenter_def squareCoords_def)

lemma getCenter_outline: "getCenter outlineCoords = Some (-31.3982, -64.1992)"
  by (simp add: getCenter_def outlineCoords_def)

lemma getCenter_far: "getCenter farCoords = Some (-30.3982, -64.1992)"
  by (simp add: getCenter_def farCoords_def outlineCoords_def)

lemma distance_square_outline:
  "calculateDistance (getCenter squareCoords) (getCenter outlineCoords) = Some 0.001"
proof -
  have "sqrt (0.000001) = (0.001::real)" by (rule real_sqrt_unique) (simp_all add: power2_eq_square)
  then show ?thesis by (simp add: calculateDistance_def getCenter_square getCenter_outline)
qed

lemma normalize_examples:
  "normalizeSchoolName asciiRuntime (ascii ''Escuela Normal'') = ascii ''escuelanormal''"
  "normalizeSchoolName asciiRuntime (ascii ''ESCUELA  NORMAL!'') = ascii ''escuelanormal''"
  "normalizeSchoolName asciiRuntime (ascii ''Colegio Nacional 2'') = ascii ''colegionacional2''"
  by (simp_all add: normalizeSchoolName_def asciiRuntime_def ascii_def)

lemma mergeSchools_append:
  "mergeSchools rt oficiales osmSchools =
     map (enrich osmSchools) oficiales
     @ filter (\<lambda>osm. normalizeSchoolName rt (School.name osm)
                 \<notin> set (map (\<lambda>school. normalizeSchoolName rt (School.name school)) oficiales))
         osmSchools"
  by (simp add: mergeSchools_def Let_def)

lemma findNearestOSMLoop_Some:
  "findNearestOSMLoop oc osms = Some m \<Longrightarrow>
     m \<in> set osms
     \<and> (case calculateDistance oc (getCenter (PolygonCoordinates.coordinates (School.polygon m))) of
          Some d \<Rightarrow> d < maxDistance | None \<Rightarrow> False)"
  by (induction osms) (auto simp add: Let_def split: if_splits)

lemma findNearestOSM_Some:
  "findNearestOSM oficial osms = Some m \<Longrightarrow>
     m \<in> set osms
     \<and> (case calculateDistance (getCenter (PolygonCoordinates.coordinates (School.polygon oficial)))
               (getCenter (PolygonCoordinates.coordinates (School.polygon m))) of
          Some d \<Rightarrow> d < maxDistance | None \<Rightarrow> False)"
  unfolding findNearestOSM_def Let_def by (rule findNearestOSMLoop_Some)

lemma enrich_fields:
  "School.id' (enrich osms o') = School.id' o'"
  "School.name (enrich osms o') = School.name o'"
  "address (enrich osms o') = address o'"
  "contactInfo (enrich osms o') = contactInfo o'"
  "detected (enrich osms o') = detected o'"
  "School.color (enrich osms o') = School.color o'"
  by (simp_all add: enrich_def split: option.splits)

lemma adField_spread:
  "adField nivel (s\<lparr>School.polygon := q, additionalData := Some (spreadWithHybrid (additionalData s))\<rparr>) = adField nivel s"
  "adField sector (s\<lparr>School.polygon := q, additionalData := Some (spreadWithHybrid (additionalData s))\<rparr>) = adField sector s"
  "adField ambito (s\<lparr>School.polygon := q, additionalData := Some (spreadWithHybrid (additionalData s))\<rparr>) = adField ambito s"
  "adField alumnos (s\<lparr>School.polygon := q, additionalData := Some (spreadWithHybrid (additionalData s))\<rparr>) = adField alumnos s"
  "adField estado (s\<lparr>School.polygon := q, additionalData := Some (spreadWithHybrid (additionalData s))\<rparr>) = adField estado s"
  "adField cue (s\<lparr>School.polygon := q, additionalData := Some (spreadWithHybrid (additionalData s))\<rparr>) = adField cue s"
  "adField source (s\<lparr>School.polygon := q, additionalData := Some (spreadWithHybrid (additionalData s))\<rparr>) = Some Hybrid"
  by (simp_all add: adField_def spreadWithHybrid_def split: option.splits)

lemma enrich_adFields:
  "adField nivel (enrich osms o') = adField nivel o'"
  "adField sector (enrich osms o') = adField sector o'"
  "adField ambito (enrich osms o') = adField ambito o'"
  "adField alumnos (enrich osms o') = adField alumnos o'"
  "adField estado (enrich osms o') = adField estado o'"
  "adField cue (enrich osms o') = adField cue o'"
  by (simp_all add: enrich_def adField_spread split: option.splits)

lemma enrich_cases:
  "enrich osms o' =
     (case findNearestOSM o' osms of
        Some m \<Rightarrow> if 5 < length (PolygonCoordinates.coordinates (School.polygon m))
                  then o'\<lparr>School.polygon := School.polygon m,
                          additionalData := Some (spreadWithHybrid (additionalData o'))\<rparr>
                  else o'
      | None \<Rightarrow> o')"
  by (simp add: enrich_def)

lemma normalizeSchoolName_normalizedName:
  "normalizeSchoolName rt nm = normalizedName rt nm"
proof -
  have a: "(\<lambda>u::nat. \<not> (768 \<le> u \<and> u \<le> 879)) = (\<lambda>u. u < 768 \<or> 879 < u)"
    by (simp add: fun_eq_iff not_le)
  have b: "(\<lambda>u::nat. (97 \<le> u \<and> u \<le> 122) \<or> (48 \<le> u \<and> u \<le> 57)) = (\<lambda>u. u \<in> {97..122} \<union> {48..57})"
    by (simp add: fun_eq_iff)
  show ?thesis
    unfolding normalizeSchoolName_def normalizedName_def nonAlphanumericsRemoved_def
      diacriticsStripped_def lowercased_def a b ..
qed

lemma latin_examples:
  "normalizedName latinRuntime nameJose = ascii ''escuelajose''"
  "normalizedName latinRuntime (ascii ''ESCUELA JOSE'') = ascii ''escuelajose''"
  "normalizedName latinRuntime (ascii ''Colegio Nacional 2'') = ascii ''colegionacional2''"
  by (simp_all add: normalizedName_def nonAlphanumericsRemoved_def diacriticsStripped_def
      lowercased_def latinRuntime_def nameJose_def ascii_def latinLower_def latinDecompose_def
      lowerDecomposition_def)

text \<open>
  Claim C6. The merged list is the primary records in their order, each passed through
  the geometry enrichment, followed by the secondary records, in their order, whose
  normalised name differs from the normalised name of every primary record; the
  normalised name is the name lower-cased, with its diacritics stripped and everything
  that is not a letter \<^verbatim>\<open>a\<close>-\<^verbatim>\<open>z\<close> or a digit removed. Distance plays no part in the second
  half, and a geometry match in the first half does not remove a secondary record from
  it.
\<close>

theorem mergeSchools_order:
  "mergeSchools rt oficiales osmSchools =
     map (enrich osmSchools) oficiales
     @ filter (\<lambda>osm. \<forall>oficial \<in> set oficiales.
                 normalizedName rt (School.name osm) \<noteq> normalizedName rt (School.name oficial))
         osmSchools"
  by (simp add: mergeSchools_append normalizeSchoolName_normalizedName image_iff)

text \<open>
  Claim C10. The merged record at a position \<open>i\<close> of the primary source agrees with primary
  record \<open>i\<close> in id, name, address, contact information, the detected flag, colour and
  every field of the additional data but the source tag. It is the primary record itself
  unless \<^verbatim>\<open>findNearestOSM\<close> returns a secondary record, within the proximity threshold,
  whose polygon has more than 5 coordinates; then its polygon is that record's polygon
  and its source tag is hybrid.
\<close>

theorem merge_frame:
  assumes i: "i < length oficiales"
  shows "School.id' (mergeSchools rt oficiales osmSchools ! i) = School.id' (oficiales ! i)
     \<and> School.name (mergeSchools rt oficiales osmSchools ! i) = School.name (oficiales ! i)
     \<and> address (mergeSchools rt oficiales osmSchools ! i) = address (oficiales ! i)
     \<and> contactInfo (mergeSchools rt oficiales osmSchools ! i) = contactInfo (oficiales ! i)
     \<and> detected (mergeSchools rt oficiales osmSchools ! i) = detected (oficiales ! i)
     \<and> School.color (mergeSchools rt oficiales osmSchools ! i) = School.color (oficiales ! i)
     \<and> adField nivel (mergeSchools rt oficiales osmSchools ! i) = adField nivel (oficiales ! i)
     \<and> adField sector (mergeSchools rt oficiales osmSchools ! i) = adField sector (oficiales ! i)
     \<and> adField ambito (mergeSchools rt oficiales osmSchools ! i) = adField ambito (oficiales ! i)
     \<and> adField alumnos (mergeSchools rt oficiales osmSchools ! i) = adField alumnos (oficiales ! i)
     \<and> adField estado (mergeSchools rt oficiales osmSchools ! i) = adField estado (oficiales ! i)
     \<and> adField cue (mergeSchools rt oficiales osmSchools ! i) = adField cue (oficiales ! i)
     \<and> (mergeSchools rt oficiales osmSchools ! i = oficiales ! i
        \<or> (\<exists>m. findNearestOSM (oficiales ! i) osmSchools = Some m
              \<and> m \<in> set osmSchools
              \<and> (case calculateDistance
                         (getCenter (PolygonCoordinates.coordinates (School.polygon (oficiales ! i))))
                         (getCenter (PolygonCoordinates.coordinates (School.polygon m))) of
                    Some d \<Rightarrow> d < maxDistance | None \<Rightarrow> False)
              \<and> 5 < length (PolygonCoordinates.coordinates (School.polygon m))
              \<and> School.polygon (mergeSchools rt oficiales osmSchools ! i) = School.polygon m
              \<and> adField source (mergeSchools rt oficiales osmSchools ! i) = Some Hybrid))"
proof -
  have nth: "mergeSchools rt oficiales osmSchools ! i = enrich osmSchools (oficiales ! i)"
    using i by (simp add: mergeSchools_append nth_append)
  have last: "enrich osmSchools (oficiales ! i) = oficiales ! i
        \<or> (\<exists>m. findNearestOSM (oficiales ! i) osmSchools = Some m
              \<and> m \<in> set osmSchools
              \<and> (case calculateDistance
                         (getCenter (PolygonCoordinates.coordinates (School.polygon (oficiales ! i))))
                         (getCenter (PolygonCoordinates.coordinates (School.polygon m))) of
                    Some d \<Rightarrow> d < maxDistance | None \<Rightarrow> False)
              \<and> 5 < length (PolygonCoordinates.coordinates (School.polygon m))
              \<and> School.polygon (enrich osmSchools (oficiales ! i)) = School.polygon m
              \<and> adField source (enrich osmSchools (oficiales ! i)) = Some Hybrid)"
  proof (cases "findNearestOSM (oficiales ! i) osmSchools")
    case None
    then show ?thesis by (simp add: enrich_cases)
  next
    case (Some m)
    show ?thesis
    proof (cases "5 < length (PolygonCoordinates.coordinates (School.polygon m))")
      case False
      with Some show ?thesis by (simp add: enrich_cases)
    next
      case True
      from findNearestOSM_Some [OF Some] Some True show ?thesis
        by (intro disjI2 exI [of _ m]) (simp add: enrich_cases adField_spread)
    qed
  qed
  show ?thesis unfolding nth using last by (simp add: enrich_fields enrich_adFields)
qed

lemma find_near:
  "findNearestOSM (mkSchool i n squareCoords) [mkSchool j m outlineCoords]
     = Some (mkSchool j m outlineCoords)"
  by (simp add: findNearestOSM_def Let_def mkSchool_def getCenter_square getCenter_outline
      calculateDistance_def maxDistance_def)

lemma find_far:
  "findNearestOSM (mkSchool i n squareCoords) [mkSchool j m farCoords] = None"
  by (simp add: findNearestOSM_def Let_def mkSchool_def getCenter_square getCenter_far
      calculateDistance_def maxDistance_def)

lemma mkSchool_sel [simp]:
  "School.name (mkSchool i n cs) = ascii n"
  "School.id' (mkSchool i n cs) = ascii i"
  "School.polygon (mkSchool i n cs) = \<lparr>PolygonCoordinates.coordinates = cs\<rparr>"
  "additionalData (mkSchool i n cs) = None"
  by (simp_all add: mkSchool_def)

lemma mkNamed_sel [simp]:
  "School.name (mkNamed nm cs) = nm"
  "School.polygon (mkNamed nm cs) = \<lparr>PolygonCoordinates.coordinates = cs\<rparr>"
  "additionalData (mkNamed nm cs) = None"
  by (simp_all add: mkNamed_def)

lemma find_named:
  "findNearestOSM (mkNamed n squareCoords) [mkNamed m farCoords] = None"
  "findNearestOSM (mkNamed n squareCoords) [mkNamed m outlineCoords] = Some (mkNamed m outlineCoords)"
  by (simp_all add: findNearestOSM_def Let_def getCenter_square getCenter_far getCenter_outline
      calculateDistance_def maxDistance_def)

text \<open>With the Latin-1 built-ins: the primary record \<^verbatim>\<open>Escuela Jos\<close> followed by U+00E9 and a far-away
  secondary record \<^verbatim>\<open>ESCUELA JOSE\<close> have the normalised name \<^verbatim>\<open>escuelajose\<close>, and the merged
  list is the primary record alone; a secondary record with another name is appended
  even though it is the geometry match of the primary record.\<close>

theorem mergeSchools_order_witness:
  "normalizedName latinRuntime nameJose = ascii ''escuelajose''
   \<and> normalizedName latinRuntime (ascii ''ESCUELA JOSE'') = ascii ''escuelajose''
   \<and> mergeSchools latinRuntime [mkNamed nameJose squareCoords]
       [mkNamed (ascii ''ESCUELA JOSE'') farCoords]
     = [mkNamed nameJose squareCoords]
   \<and> mergeSchools latinRuntime [mkNamed nameJose squareCoords]
       [mkNamed (ascii ''Colegio Nacional 2'') outlineCoords]
     = [(mkNamed nameJose squareCoords)
          \<lparr>School.polygon := \<lparr>PolygonCoordinates.coordinates = outlineCoords\<rparr>,
           additionalData := Some (spreadWithHybrid None)\<rparr>,
        mkNamed (ascii ''Colegio Nacional 2'') outlineCoords]"
proof -
  let ?p = "mkNamed nameJose squareCoords"
  have a: "mergeSchools latinRuntime [?p] [mkNamed (ascii ''ESCUELA JOSE'') farCoords] = [?p]"
    using mergeSchools_order [of latinRuntime "[?p]" "[mkNamed (ascii ''ESCUELA JOSE'') farCoords]"]
    by (simp add: latin_examples enrich_cases find_named)
  have len: "length outlineCoords = 6" by (simp add: outlineCoords_def)
  have ne: "ascii ''colegionacional2'' \<noteq> ascii ''escuelajose''" by (simp add: ascii_def)
  have b: "mergeSchools latinRuntime [?p] [mkNamed (ascii ''Colegio Nacional 2'') outlineCoords]
     = [?p\<lparr>School.polygon := \<lparr>PolygonCoordinates.coordinates = outlineCoords\<rparr>,
           additionalData := Some (spreadWithHybrid None)\<rparr>,
        mkNamed (ascii ''Colegio Nacional 2'') outlineCoords]"
    using mergeSchools_order [of latinRuntime "[?p]" "[mkNamed (ascii ''Colegio Nacional 2'') outlineCoords]"]
    by (simp add: latin_examples enrich_cases find_named len ne)
  from latin_examples(1) latin_examples(2) a b show ?thesis by (intro conjI)
qed

text \<open>The primary record keeps its id and name and takes the outline of the nearby
  secondary record; with only a far-away secondary record it is unchanged.\<close>

theorem merge_frame_witness:
  "(0::nat) < length [mkSchool ''1'' ''Escuela Normal'' squareCoords]
   \<and> School.name (mergeSchools asciiRuntime [mkSchool ''1'' ''Escuela Normal'' squareCoords]
        [mkSchool ''2'' ''Colegio Nacional 2'' outlineCoords] ! 0) = ascii ''Escuela Normal''
   \<and> School.id' (mergeSchools asciiRuntime [mkSchool ''1'' ''Escuela Normal'' squareCoords]
        [mkSchool ''2'' ''Colegio Nacional 2'' outlineCoords] ! 0) = ascii ''1''
   \<and> School.polygon (mergeSchools asciiRuntime [mkSchool ''1'' ''Escuela Normal'' squareCoords]
        [mkSchool ''2'' ''Colegio Nacional 2'' outlineCoords] ! 0)
       = \<lparr>PolygonCoordinates.coordinates = outlineCoords\<rparr>
   \<and> mergeSchools asciiRuntime [mkSchool ''1'' ''Escuela Normal'' squareCoords]
        [mkSchool ''2'' ''ESCUELA  NORMAL!'' farCoords] ! 0
       = mkSchool ''1'' ''Escuela Normal'' squareCoords"
proof -
  let ?p = "mkSchool ''1'' ''Escuela Normal'' squareCoords"
  let ?q = "mkSchool ''2'' ''Colegio Nacional 2'' outlineCoords"
  let ?f = "mkSchool ''2'' ''ESCUELA  NORMAL!'' farCoords"
  have i: "(0::nat) < length [?p]" by simp
  have len: "length outlineCoords = 6" by (simp add: outlineCoords_def)
  from merge_frame [OF i, of asciiRuntime "[?q]"]
  have n: "School.name (mergeSchools asciiRuntime [?p] [?q] ! 0) = ascii ''Escuela Normal''"
    and d: "School.id' (mergeSchools asciiRuntime [?p] [?q] ! 0) = ascii ''1''"
    by simp_all
  have pg: "School.polygon (mergeSchools asciiRuntime [?p] [?q] ! 0)
       = \<lparr>PolygonCoordinates.coordinates = outlineCoords\<rparr>"
    by (simp add: mergeSchools_append enrich_cases find_near len)
  from merge_frame [OF i, of asciiRuntime "[?f]"]
  have same: "mergeSchools asciiRuntime [?p] [?f] ! 0 = ?p" by (simp add: find_far)
  from i n d pg same show ?thesis by (intro conjI)
qed

text \<open>
  Claim C4, as amended. For one primary and one secondary record whose centroids are
  closer than the threshold (0.001 degrees, say) and a secondary polygon of more than 5
  vertices (6, say): the first merged record is the primary record with the secondary
  record's polygon and the source tag hybrid; it is the only record when the two
  normalised names are equal, and otherwise the secondary record follows it.
\<close>

theorem merge_one_pair:
  assumes d: "calculateDistance (getCenter (PolygonCoordinates.coordinates (School.polygon p)))
                (getCenter (PolygonCoordinates.coordinates (School.polygon q))) = Some d"
    and near: "d < maxDistance"
    and six: "5 < length (PolygonCoordinates.coordinates (School.polygon q))"
  shows "mergeSchools rt [p] [q] =
      p\<lparr>School.polygon := School.polygon q,
        additionalData := Some (spreadWithHybrid (additionalData p))\<rparr>
        # (if normalizeSchoolName rt (School.name q) = normalizeSchoolName rt (School.name p)
           then [] else [q])
     \<and> School.polygon (hd (mergeSchools rt [p] [q])) = School.polygon q
     \<and> adField source (hd (mergeSchools rt [p] [q])) = Some Hybrid
     \<and> length (mergeSchools rt [p] [q]) =
         (if normalizeSchoolName rt (School.name q) = normalizeSchoolName rt (School.name p)
          then 1 else 2)"
proof -
  have f: "findNearestOSM p [q] = Some q"
    using d near by (simp add: findNearestOSM_def Let_def)
  have m: "mergeSchools rt [p] [q] =
      p\<lparr>School.polygon := School.polygon q,
        additionalData := Some (spreadWithHybrid (additionalData p))\<rparr>
        # (if normalizeSchoolName rt (School.name q) = normalizeSchoolName rt (School.name p)
           then [] else [q])"
    using six by (simp add: mergeSchools_append enrich_cases f)
  show ?thesis unfolding m by (simp add: adField_spread)
qed

text \<open>
  Claim C4 as stated fails: with centroids 0.001 degrees apart, a six-vertex outline and
  two different names the merged list has two records.
\<close>

theorem matched_secondary_appended:
  "calculateDistance (getCenter squareCoords) (getCenter outlineCoords) = Some 0.001
   \<and> length outlineCoords = 6
   \<and> length (mergeSchools asciiRuntime [mkSchool ''1'' ''Escuela Normal'' squareCoords]
        [mkSchool ''2'' ''Colegio Nacional 2'' outlineCoords]) = 2"
proof -
  have len: "length outlineCoords = 6" by (simp add: outlineCoords_def)
  have ne: "ascii ''colegionacional2'' \<noteq> ascii ''escuelanormal''" by (simp add: ascii_def)
  have "length (mergeSchools asciiRuntime [mkSchool ''1'' ''Escuela Normal'' squareCoords]
        [mkSchool ''2'' ''Colegio Nacional 2'' outlineCoords]) = 2"
    by (simp add: mergeSchools_append normalize_examples ne)
  with distance_square_outline len show ?thesis by (intro conjI)
qed

text \<open>The same pair of polygons with names that normalise to the same string: one
  record, carrying the outline.\<close>

theorem merge_one_pair_witness:
  "calculateDistance
      (getCenter (PolygonCoordinates.coordinates (School.polygon (mkSchool ''1'' ''Escuela Normal'' squareCoords))))
      (getCenter (PolygonCoordinates.coordinates (School.polygon (mkSchool ''2'' ''ESCUELA  NORMAL!'' outlineCoords))))
     = Some 0.001
   \<and> (0.001::real) < maxDistance
   \<and> 5 < length (PolygonCoordinates.coordinates (School.polygon (mkSchool ''2'' ''ESCUELA  NORMAL!'' outlineCoords)))
   \<and> mergeSchools asciiRuntime [mkSchool ''1'' ''Escuela Normal'' squareCoords]
        [mkSchool ''2'' ''ESCUELA  NORMAL!'' outlineCoords]
      = [(mkSchool ''1'' ''Escuela Normal'' squareCoords)
          \<lparr>School.polygon := \<lparr>PolygonCoordinates.coordinates = outlineCoords\<rparr>,
           additionalData := Some (spreadWithHybrid None)\<rparr>]"
proof -
  let ?p = "mkSchool ''1'' ''Escuela Normal'' squareCoords"
  let ?q = "mkSchool ''2'' ''ESCUELA  NORMAL!'' outlineCoords"
  have d: "calculateDistance (getCenter (PolygonCoordinates.coordinates (School.polygon ?p)))
      (getCenter (PolygonCoordinates.coordinates (School.polygon ?q))) = Some 0.001"
    using distance_square_outline by simp
  have near: "(0.001::real) < maxDistance" by (simp add: maxDistance_def)
  have six: "5 < length (PolygonCoordinates.coordinates (School.polygon ?q))"
    by (simp add: outlineCoords_def)
  from merge_one_pair [OF d near six, of asciiRuntime]
  have "mergeSchools asciiRuntime [?p] [?q]
      = [?p\<lparr>School.polygon := \<lparr>PolygonCoordinates.coordinates = outlineCoords\<rparr>,
           additionalData := Some (spreadWithHybrid None)\<rparr>]"
    by (simp add: normalize_examples)
  with d near six show ?thesis by (intro conjI)
qed

text \<open>
  Claim C9. The three operations read their arguments, the read-only default
  configuration and the library operations, and nothing else: the array
  \<^verbatim>\<open>prevZonePolygons\<close> is created afresh by each call, and no argument is written to. Equal
  inputs therefore give equal outputs. (The library operations are functions here; a
  library that answers differently on equal arguments is outside the model.)
\<close>

theorem recomputation_deterministic:
  assumes "oficiales' = oficiales" and "osmSchools' = osmSchools"
    and "center' = center" and "config' = config"
    and "schoolList' = schoolList" and "layerFeatures' = layerFeatures"
  shows "mergeSchools rt oficiales' osmSchools' = mergeSchools rt oficiales osmSchools
     \<and> createBufferZones turf this center' config' = createBufferZones turf this center config
     \<and> analyzeBufferZones turf this center' schoolList' layerFeatures' config'
         = analyzeBufferZones turf this center schoolList layerFeatures config"
  using assms by simp

text \<open>Two runs on the example records and the default configuration.\<close>

theorem recomputation_deterministic_witness:
  "mergeSchools asciiRuntime [mkSchool ''1'' ''Escuela Normal'' squareCoords]
       [mkSchool ''2'' ''Colegio Nacional 2'' outlineCoords]
     = mergeSchools asciiRuntime [mkSchool ''1'' ''Escuela Normal'' squareCoords]
       [mkSchool ''2'' ''Colegio Nacional 2'' outlineCoords]
   \<and> createBufferZones planarTurf service (-31.3992, -64.1992) None
     = createBufferZones planarTurf service (-31.3992, -64.1992) None
   \<and> analyzeBufferZones planarTurf service (-31.3992, -64.1992)
       [mkSchool ''1'' ''Escuela Normal'' squareCoords] noLayers None
     = analyzeBufferZones planarTurf service (-31.3992, -64.1992)
       [mkSchool ''1'' ''Escuela Normal'' squareCoords] noLayers None"
  by (rule recomputation_deterministic [OF refl refl refl refl refl refl])

end
